theory Spec2Isabelle
  imports Complex_Main
begin

section \<open>Strings as the scripts see them\<close>

text \<open>
  A JavaScript string is modelled as a \<^typ>\<open>string\<close>, a list of 8-bit characters: the model
  covers the strings whose UTF-16 code units all lie below 256, and \<open>length\<close> is the
  script's \<open>.length\<close> on them. The character classes below are those of the
  regular expressions in the scripts, restricted to that range.
\<close>

definition code :: "char \<Rightarrow> nat" where
  "code c = of_char c"

text \<open>\<open>\d\<close> and \<open>[0-9]\<close>.\<close>

definition isDigit :: "char \<Rightarrow> bool" where
  "isDigit c = (48 \<le> code c \<and> code c \<le> 57)"

text \<open>\<open>[A-Z]\<close>.\<close>

definition isUpper :: "char \<Rightarrow> bool" where
  "isUpper c = (65 \<le> code c \<and> code c \<le> 90)"

text \<open>\<open>Number.prototype.toString\<close> on a non-negative integer.\<close>

fun toStringNat :: "nat \<Rightarrow> string" where
  "toStringNat n =
     (if n < 10 then [char_of (48 + n)]
      else toStringNat (n div 10) @ [char_of (48 + n mod 10)])"

declare toStringNat.simps [simp del]

section \<open>IBAN checksum (payment-form-validator.js, validateIBANChecksum)\<close>

text \<open>\<open>iban.slice(4) + iban.slice(0, 4)\<close>.\<close>

definition rearranged :: "string \<Rightarrow> string" where
  "rearranged iban = drop 4 iban @ take 4 iban"

text \<open>\<open>rearranged.replace(/[A-Z]/g, char => (char.charCodeAt(0) - 55).toString())\<close>.\<close>

definition numericString :: "string \<Rightarrow> string" where
  "numericString s =
     concat (map (\<lambda>c. if isUpper c then toStringNat (code c - 55) else [c]) s)"

text \<open>
  \<open>parseInt\<close> of a one-character string: the digit's value, and \<open>NaN\<close> (here \<open>None\<close>)
  for every other character.
\<close>

definition parseIntChar :: "char \<Rightarrow> nat option" where
  "parseIntChar c = (if isDigit c then Some (code c - 48) else None)"

text \<open>
  The loop \<open>remainder = (remainder * 10 + parseInt(numericString[i])) % 97\<close>. Arithmetic
  with \<open>NaN\<close> gives \<open>NaN\<close>, so the remainder is a \<^typ>\<open>nat option\<close>; the numbers stay
  below 970, where the script's doubles are exact.
\<close>

fun remainderLoop :: "nat option \<Rightarrow> string \<Rightarrow> nat option" where
  "remainderLoop r [] = r"
| "remainderLoop r (c # cs) =
     remainderLoop
       (case r of
          None \<Rightarrow> None
        | Some k \<Rightarrow> (case parseIntChar c of None \<Rightarrow> None | Some d \<Rightarrow> Some ((k * 10 + d) mod 97)))
       cs"

definition validateIBANChecksum :: "string \<Rightarrow> bool" where
  "validateIBANChecksum iban =
     (remainderLoop (Some 0) (numericString (rearranged iban)) = Some 1)"

text \<open>
  The rule in the specification's words: the characters of the concatenation read as one
  decimal number.
\<close>

definition decimalValue :: "string \<Rightarrow> nat" where
  "decimalValue s = foldl (\<lambda>a c. a * 10 + (code c - 48)) 0 s"

definition spec_iban_valid :: "string \<Rightarrow> bool" where
  "spec_iban_valid iban = (decimalValue (numericString (rearranged iban)) mod 97 = 1)"

section \<open>String operations of the platform\<close>

definition LF :: char where "LF = CHR 0x0A"
definition CR :: char where "CR = CHR 0x0D"
definition BSL :: char where "BSL = CHR 0x5C"
definition DQ :: char where "DQ = CHR 0x22"

text \<open>
  White space and line terminators, as \<open>String.prototype.trim\<close> and \<open>\s\<close> know them, below
  code 256: tab, line feed, vertical tab, form feed, carriage return, space, no-break space.
\<close>

definition isSpace :: "char \<Rightarrow> bool" where
  "isSpace c = (code c = 9 \<or> code c = 10 \<or> code c = 11 \<or> code c = 12 \<or> code c = 13
                 \<or> code c = 32 \<or> code c = 160)"

definition trimStart :: "string \<Rightarrow> string" where
  "trimStart s = dropWhile isSpace s"

definition trimEnd :: "string \<Rightarrow> string" where
  "trimEnd s = rev (dropWhile isSpace (rev s))"

definition trim :: "string \<Rightarrow> string" where
  "trim s = trimEnd (trimStart s)"

text \<open>\<open>s.replace(/c/g, r)\<close> for a pattern that is one literal character.\<close>

definition replaceChar :: "char \<Rightarrow> string \<Rightarrow> string \<Rightarrow> string" where
  "replaceChar c r s = concat (map (\<lambda>x. if x = c then r else [x]) s)"

definition startsWith :: "string \<Rightarrow> string \<Rightarrow> bool" where
  "startsWith s p = (take (length p) s = p)"

text \<open>\<open>s.includes(p)\<close>.\<close>

fun includesStr :: "string \<Rightarrow> string \<Rightarrow> bool" where
  "includesStr [] p = (p = [])"
| "includesStr (c # cs) p = (startsWith (c # cs) p \<or> includesStr cs p)"

text \<open>\<open>s.split(c)\<close> and \<open>parts.join(c)\<close> for a one-character separator.\<close>

fun splitOn :: "char \<Rightarrow> string \<Rightarrow> string list" where
  "splitOn c [] = [[]]"
| "splitOn c (x # xs) =
     (if x = c then [] # splitOn c xs
      else (case splitOn c xs of [] \<Rightarrow> [[x]] | l # ls \<Rightarrow> (x # l) # ls))"

fun joinWith :: "char \<Rightarrow> string list \<Rightarrow> string" where
  "joinWith c [] = []"
| "joinWith c [l] = l"
| "joinWith c (l # ls) = l @ c # joinWith c ls"

text \<open>
  What a validator returns: \<open>{isValid: true, ...}\<close> with a payload, or
  \<open>{isValid: false, error: message}\<close>.
\<close>

datatype 'a result = Ok 'a | Fail string

section \<open>Phone numbers and messages (sms-qr-generator.js, sms-form-validator.js)\<close>

text \<open>\<open>phone.replace(/[^\d+]/g, '')\<close>: every digit and every plus sign stays.\<close>

definition cleanPhoneOf :: "string \<Rightarrow> string" where
  "cleanPhoneOf phone = filter (\<lambda>c. isDigit c \<or> c = CHR ''+'') phone"

definition formatPhoneNumber :: "string \<Rightarrow> string" where
  "formatPhoneNumber phone =
     (if phone = [] then []
      else let cleanPhone = cleanPhoneOf phone in
        if \<not> startsWith cleanPhone ''+'' then
          (if length cleanPhone = 10 then ''+1'' @ cleanPhone
           else if length cleanPhone = 11 \<and> startsWith cleanPhone ''1'' then ''+'' @ cleanPhone
           else ''+'' @ cleanPhone)
        else cleanPhone)"

text \<open>\<open>/^\d+$/.test(s)\<close>.\<close>

definition allDigits :: "string \<Rightarrow> bool" where
  "allDigits s = (s \<noteq> [] \<and> list_all isDigit s)"

definition validatePhoneNumber :: "string \<Rightarrow> unit result" where
  "validatePhoneNumber phone =
     (if phone = [] then Fail ''Phone number is required''
      else let cleanPhone = cleanPhoneOf phone in
        if length cleanPhone = 0 then Fail ''Please enter a valid phone number''
        else if startsWith cleanPhone ''+'' then
          (let digits = drop 1 cleanPhone in
           if length digits < 7 \<or> length digits > 15
           then Fail ''International phone number must be 7-15 digits after country code''
           else if \<not> allDigits digits
           then Fail ''Phone number can only contain digits and + symbol''
           else Ok ())
        else
          (if length cleanPhone < 7 \<or> length cleanPhone > 15
           then Fail ''Phone number must be 7-15 digits long''
           else if \<not> allDigits cleanPhone
           then Fail ''Phone number can only contain digits''
           else Ok ()))"

text \<open>
  \<open>SMSFormValidator.validateMessage\<close>; the payload of a success is \<open>normalizedValue\<close>.
\<close>

definition validateMessage :: "string \<Rightarrow> string result" where
  "validateMessage v =
     (if v = [] then Ok []
      else if length v > 160 then Fail ''Message cannot exceed 160 characters''
      else if includesStr v [LF] \<and> length (splitOn LF v) > 5
      then Fail ''Message has too many line breaks''
      else Ok v)"

section \<open>Wi-Fi payload (wifi-qr-generator.js)\<close>

text \<open>
  \<open>password\<close> and \<open>hidden\<close> are optional properties: \<open>None\<close> is \<open>undefined\<close>.
\<close>

record wifiData =
  ssid :: string
  password :: "string option"
  security :: string
  hidden :: "bool option"

definition escapeWiFiString :: "string \<Rightarrow> string" where
  "escapeWiFiString str =
     (if str = [] then []
      else replaceChar DQ [BSL, DQ]
             (replaceChar (CHR '','') [BSL, CHR '','']
               (replaceChar (CHR '';'') [BSL, CHR '';'']
                 (replaceChar BSL [BSL, BSL] str))))"

text \<open>
  The object literal \<open>securityMap\<close>, read at its own four keys; a key it does not have gives
  \<open>undefined\<close>, and \<open>|| 'WPA'\<close> then applies. (Properties an object inherits, such as
  \<open>constructor\<close>, are not security types a form can send and are left out.)
\<close>

definition securityMap :: "string \<rightharpoonup> string" where
  "securityMap = [''WPA'' \<mapsto> ''WPA'', ''WPA3'' \<mapsto> ''WPA'', ''WEP'' \<mapsto> ''WEP'',
                  ''nopass'' \<mapsto> ''nopass'']"

definition formatWiFiString :: "wifiData \<Rightarrow> string" where
  "formatWiFiString wifi =
     (let escapedSSID = escapeWiFiString (ssid wifi);
          escapedPassword = (case password wifi of None \<Rightarrow> []
                             | Some p \<Rightarrow> if p = [] then [] else escapeWiFiString p);
          securityType = (case securityMap (security wifi) of None \<Rightarrow> ''WPA''
                          | Some t \<Rightarrow> if t = [] then ''WPA'' else t);
          hiddenFlag = (if hidden wifi = Some True then ''true'' else ''false'');
          wifiString = ''WIFI:T:'' @ securityType @ '';S:'' @ escapedSSID @ '';'';
          wifiString = (if securityType \<noteq> ''nopass'' \<and> escapedPassword \<noteq> []
                        then wifiString @ ''P:'' @ escapedPassword @ '';'' else wifiString)
      in wifiString @ ''H:'' @ hiddenFlag @ '';;'')"

text \<open>\<open>/^[0-9A-Fa-f]+$/.test(s)\<close>.\<close>

definition isHexDigit :: "char \<Rightarrow> bool" where
  "isHexDigit c = (isDigit c \<or> (65 \<le> code c \<and> code c \<le> 70) \<or> (97 \<le> code c \<and> code c \<le> 102))"

definition allHex :: "string \<Rightarrow> bool" where
  "allHex s = (s \<noteq> [] \<and> list_all isHexDigit s)"

definition validateWiFiData :: "wifiData \<Rightarrow> unit result" where
  "validateWiFiData wifi =
     (if ssid wifi = [] \<or> length (trim (ssid wifi)) = 0
      then Fail ''Network name (SSID) is required''
      else if length (ssid wifi) > 32
      then Fail ''Network name cannot exceed 32 characters''
      else if security wifi \<notin> set [''WPA'', ''WPA3'', ''WEP'', ''nopass'']
      then Fail ''Invalid security type''
      else if security wifi \<noteq> ''nopass'' then
        (case password wifi of
           None \<Rightarrow> Fail ''Password is required for secured networks''
         | Some pw \<Rightarrow>
            if length pw = 0 then Fail ''Password is required for secured networks''
            else if (security wifi = ''WPA'' \<or> security wifi = ''WPA3'')
                    \<and> (length pw < 8 \<or> length pw > 63)
            then Fail ''WPA password must be 8-63 characters long''
            else if security wifi = ''WEP''
                    \<and> \<not> (length pw = 5 \<or> length pw = 13
                          \<or> (length pw = 10 \<and> allHex pw) \<or> (length pw = 26 \<and> allHex pw))
            then Fail ''WEP password must be 5/13 characters or 10/26 hex digits''
            else Ok ())
      else Ok ())"

text \<open>
  The escaper in the specification's words: one pass that puts a backslash in front of each
  backslash, semicolon, comma and double quote.
\<close>

definition spec_escape :: "string \<Rightarrow> string" where
  "spec_escape s =
     concat (map (\<lambda>c. if c = BSL \<or> c = CHR '';'' \<or> c = CHR '','' \<or> c = DQ then [BSL, c] else [c]) s)"

section \<open>Plain text (text-qr-generator.js)\<close>

text \<open>
  A call that may throw: \<open>Returned v\<close> is a normal return (for an \<open>async\<close> method, a
  promise fulfilled with \<open>v\<close>), \<open>Thrown m\<close> is \<open>throw new Error(m)\<close> reaching the caller
  (a rejected promise).
\<close>

datatype 'a outcome = Returned 'a | Thrown string

text \<open>\<open>s.replace(/\r\n/g, '\n')\<close>.\<close>

fun replaceCRLF :: "string \<Rightarrow> string" where
  "replaceCRLF (c # d # s) =
     (if c = CR \<and> d = LF then LF # replaceCRLF s else c # replaceCRLF (d # s))"
| "replaceCRLF s = s"

text \<open>
  \<open>s.replace(/\n{3,}/g, '\n\n')\<close>: the pattern is greedy, so each maximal run of line feeds
  is one match when it has three or more of them. The first argument counts the line feeds
  of the run being read.
\<close>

fun collapseFrom :: "nat \<Rightarrow> string \<Rightarrow> string" where
  "collapseFrom n [] = replicate (if 3 \<le> n then 2 else n) LF"
| "collapseFrom n (c # cs) =
     (if c = LF then collapseFrom (Suc n) cs
      else replicate (if 3 \<le> n then 2 else n) LF @ c # collapseFrom 0 cs)"

definition collapseLineBreaks :: "string \<Rightarrow> string" where
  "collapseLineBreaks s = collapseFrom 0 s"

definition formatTextForQR :: "string \<Rightarrow> string" where
  "formatTextForQR text =
     (if text = [] then []
      else let formatted = trim text;
               formatted = replaceChar CR [LF] (replaceCRLF formatted);
               formatted = collapseLineBreaks formatted
           in joinWith LF (map trimEnd (splitOn LF formatted)))"

text \<open>
  \<open>TextQRGenerator.generateQR\<close>. The QR library's \<open>QRCode.toDataURL\<close> is the parameter
  \<open>toDataURL\<close>; every error, the method's own and the library's, is caught and thrown again
  with a prefix.
\<close>

definition TextQRGenerator_generateQR :: "(string \<Rightarrow> string outcome) \<Rightarrow> string \<Rightarrow> string outcome" where
  "TextQRGenerator_generateQR toDataURL text =
     (case (if text = [] then Thrown ''Text content is required and must be a string''
            else let trimmedText = trim text in
              if length trimmedText = 0 then Thrown ''Text content cannot be empty''
              else if length trimmedText > 2000
              then Thrown ''Text content is too long (maximum 2000 characters)''
              else toDataURL trimmedText)
      of Returned dataURL \<Rightarrow> Returned dataURL
       | Thrown message \<Rightarrow> Thrown (''Failed to generate QR code: '' @ message))"

text \<open>
  The pass-through encoding in the specification's words: trim, normalize the line endings,
  collapse three or more line breaks to two.
\<close>

definition spec_format :: "string \<Rightarrow> string" where
  "spec_format text = collapseLineBreaks (replaceChar CR [LF] (replaceCRLF (trim text)))"

section \<open>Numbers\<close>

text \<open>
  A JavaScript number is \<open>NaN\<close>, one of the two infinities, or a finite double, which is
  modelled by its exact rational value. Reading a decimal literal rounds to the nearest
  double (\<open>nearestDouble\<close> below); comparing two doubles and printing one with \<open>toFixed\<close>
  are exact operations on those values.
\<close>

datatype jsnum = NaN | Fin rat | PosInf | NegInf

fun num_gt :: "jsnum \<Rightarrow> rat \<Rightarrow> bool" where
  "num_gt (Fin x) c = (x > c)"
| "num_gt PosInf c = True"
| "num_gt _ c = False"

fun num_lt :: "jsnum \<Rightarrow> rat \<Rightarrow> bool" where
  "num_lt (Fin x) c = (x < c)"
| "num_lt NegInf c = True"
| "num_lt _ c = False"

fun num_ge :: "jsnum \<Rightarrow> rat \<Rightarrow> bool" where
  "num_ge (Fin x) c = (x \<ge> c)"
| "num_ge PosInf c = True"
| "num_ge _ c = False"

fun num_le :: "jsnum \<Rightarrow> rat \<Rightarrow> bool" where
  "num_le (Fin x) c = (x \<le> c)"
| "num_le NegInf c = True"
| "num_le _ c = False"

fun isNaN :: "jsnum \<Rightarrow> bool" where
  "isNaN NaN = True"
| "isNaN _ = False"

text \<open>
  The Number value of a fraction \<open>p / q\<close> of integers with \<open>p \<ge> 0\<close> and \<open>q > 0\<close>: the IEEE 754
  double nearest to it, ties going to the even significand. \<open>bitLength\<close> counts binary
  digits, which bounds the binary exponent \<open>e\<close> to two candidates; the exponent is held at
  -1022 for the subnormal numbers; the significand \<open>n\<close> counts units of \<open>2^(e - 52)\<close>; a result
  of \<open>2^1024\<close> or more is \<open>Infinity\<close>.
\<close>

function bitLength :: "int \<Rightarrow> nat" where
  "bitLength n = (if n \<le> 0 then 0 else Suc (bitLength (n div 2)))"
  by pat_completeness auto
termination
  by (relation "measure nat") auto

declare bitLength.simps [simp del]

definition roundHalfEven :: "int \<Rightarrow> int \<Rightarrow> int" where
  "roundHalfEven num den =
     (let n = num div den; r = num mod den
      in if 2 * r > den \<or> (2 * r = den \<and> odd n) then n + 1 else n)"

definition nearestDouble :: "int \<Rightarrow> int \<Rightarrow> jsnum" where
  "nearestDouble p q =
     (if p = 0 then Fin 0
      else
        let e0 = int (bitLength p) - int (bitLength q);
            e = (if (if 0 \<le> e0 then q * 2 ^ nat e0 \<le> p else q \<le> p * 2 ^ nat (- e0))
                 then e0 else e0 - 1);
            e = max e (- 1022);
            s = 52 - e;
            n = (if 0 \<le> s then roundHalfEven (p * 2 ^ nat s) q
                 else roundHalfEven p (q * 2 ^ nat (- s)));
            v = (if 0 \<le> s then of_int n / 2 ^ nat s else of_int n * 2 ^ nat (- s))
        in if v \<ge> 2 ^ 1024 then PosInf else Fin v)"

fun negate :: "jsnum \<Rightarrow> jsnum" where
  "negate (Fin x) = Fin (- x)"
| "negate PosInf = NegInf"
| "negate NegInf = PosInf"
| "negate NaN = NaN"

text \<open>The digits of a decimal literal read as one integer.\<close>

definition digitsValue :: "string \<Rightarrow> int" where
  "digitsValue s = foldl (\<lambda>a c. a * 10 + (int (code c) - 48)) 0 s"

text \<open>
  The exponent part of a decimal literal, \<open>e\<close> or \<open>E\<close>, an optional sign and at least one
  digit; 0 where there is none.
\<close>

definition decimalExponent :: "string \<Rightarrow> int" where
  "decimalExponent s =
     (case s of
        [] \<Rightarrow> 0
      | c # r \<Rightarrow>
         if c = CHR ''e'' \<or> c = CHR ''E'' then
           (case r of
              [] \<Rightarrow> 0
            | d # r' \<Rightarrow>
               if d = CHR ''-'' then
                 (if takeWhile isDigit r' = [] then 0
                  else - digitsValue (takeWhile isDigit r'))
               else if d = CHR ''+'' then
                 (if takeWhile isDigit r' = [] then 0
                  else digitsValue (takeWhile isDigit r'))
               else
                 (if takeWhile isDigit r = [] then 0
                  else digitsValue (takeWhile isDigit r)))
         else 0)"

text \<open>
  \<open>parseFloat\<close>: leading white space is skipped, then the longest prefix that is a decimal
  literal is read: an optional sign, then \<open>Infinity\<close>, or digits with an optional fraction,
  or a fraction alone, and an optional exponent. No such prefix gives \<open>NaN\<close>. The literal's
  digits \<open>d\<close> and its decimal exponent \<open>x\<close> give the value \<open>d * 10^x\<close>, and the result is the
  double nearest to that value. (The model has one zero: \<open>-0\<close> is \<open>0\<close>.)
\<close>

definition parseFloat :: "string \<Rightarrow> jsnum" where
  "parseFloat str =
     (let s0 = trimStart str;
          neg = startsWith s0 ''-'';
          s1 = (if startsWith s0 ''-'' \<or> startsWith s0 ''+'' then drop 1 s0 else s0)
      in if startsWith s1 ''Infinity'' then (if neg then NegInf else PosInf)
         else
           let ip = takeWhile isDigit s1;
               s2 = dropWhile isDigit s1;
               fp = (if startsWith s2 ''.'' then takeWhile isDigit (drop 1 s2) else []);
               s3 = (if startsWith s2 ''.'' then dropWhile isDigit (drop 1 s2) else s2)
           in if ip = [] \<and> fp = [] then NaN
              else
                let digits = digitsValue (ip @ fp);
                    x = decimalExponent s3 - int (length fp);
                    magnitude = (if 0 \<le> x then nearestDouble (digits * 10 ^ nat x) 1
                                 else nearestDouble digits (10 ^ nat (- x)))
                in if neg then negate magnitude else magnitude)"

text \<open>
  \<open>x.toFixed(6)\<close>. For a finite \<open>x\<close> below \<open>10^21\<close> in size: the integer \<open>n\<close> nearest to
  \<open>|x| * 10^6\<close>, the larger one of two, is written in decimal, padded with zeros to seven
  digits, and split before its last six digits; a minus sign goes in front when \<open>x < 0\<close>.
  From \<open>10^21\<close> on the script falls back to the exponential notation of
  \<open>Number.prototype.toString\<close>, which is not modelled: the result is \<open>None\<close> there.
\<close>

definition toFixed6 :: "jsnum \<Rightarrow> string option" where
  "toFixed6 v =
     (case v of
        NaN \<Rightarrow> Some ''NaN''
      | PosInf \<Rightarrow> Some ''Infinity''
      | NegInf \<Rightarrow> Some ''-Infinity''
      | Fin x \<Rightarrow>
         if \<bar>x\<bar> \<ge> 10 ^ 21 then None
         else
           let n = nat \<lfloor>\<bar>x\<bar> * 10 ^ 6 + 1 / 2\<rfloor>;
               m = toStringNat n;
               m = (if length m \<le> 6 then replicate (7 - length m) (CHR ''0'') @ m else m);
               a = take (length m - 6) m;
               b = drop (length m - 6) m
           in Some ((if x < 0 then ''-'' else []) @ a @ ''.'' @ b))"

section \<open>Locations (location-qr-generator.js)\<close>

text \<open>
  The regular expressions of \<open>parseGoogleMapsUrl\<close> are modelled by matchers that read a
  string from its start and by \<open>searchFrom\<close>, which tries a matcher at each position from
  the left, as \<open>String.prototype.match\<close> does.

  \<open>matchNumber\<close> is the greedy match of \<open>-?\d+\.?\d*\<close>: the matched text and what follows
  it. The greedy match is the only one that matters: in every pattern below the number is
  either last or followed by a comma, and a shorter match of the number is followed by a
  digit or a dot.
\<close>

fun searchFrom :: "(string \<Rightarrow> 'a option) \<Rightarrow> string \<Rightarrow> 'a option" where
  "searchFrom m [] = m []"
| "searchFrom m (c # cs) = (case m (c # cs) of Some r \<Rightarrow> Some r | None \<Rightarrow> searchFrom m cs)"

definition stripPrefix :: "string \<Rightarrow> string \<Rightarrow> string option" where
  "stripPrefix p s = (if startsWith s p then Some (drop (length p) s) else None)"

definition matchNumber :: "string \<Rightarrow> (string \<times> string) option" where
  "matchNumber s =
     (let sgn = (if startsWith s ''-'' then ''-'' else []);
          s1 = (if startsWith s ''-'' then drop 1 s else s);
          ds = takeWhile isDigit s1;
          s2 = dropWhile isDigit s1
      in if ds = [] then None
         else
           let dot = (if startsWith s2 ''.'' then ''.'' else []);
               s3 = (if startsWith s2 ''.'' then drop 1 s2 else s2);
               fs = takeWhile isDigit s3;
               s4 = dropWhile isDigit s3
           in Some (sgn @ ds @ dot @ fs, s4))"

text \<open>\<open>(-?\d+\.?\d*),(-?\d+\.?\d*)\<close>: the two captured texts and what follows.\<close>

definition matchPair :: "string \<Rightarrow> (string \<times> string \<times> string) option" where
  "matchPair s =
     (case matchNumber s of
        None \<Rightarrow> None
      | Some (a, r) \<Rightarrow>
         (case stripPrefix '','' r of
            None \<Rightarrow> None
          | Some r' \<Rightarrow>
             (case matchNumber r' of
                None \<Rightarrow> None
              | Some (b, r'') \<Rightarrow> Some (a, b, r''))))"

text \<open>\<open>[?&]key=(-?\d+\.?\d*),(-?\d+\.?\d*)\<close> at the start of the string.\<close>

definition matchParam :: "string \<Rightarrow> string \<Rightarrow> (string \<times> string) option" where
  "matchParam key s =
     (case s of
        [] \<Rightarrow> None
      | c # r \<Rightarrow>
         if c = CHR ''?'' \<or> c = CHR ''&'' then
           (case stripPrefix (key @ ''='') r of
              None \<Rightarrow> None
            | Some r' \<Rightarrow> map_option (\<lambda>(a, b, _). (a, b)) (matchPair r'))
         else None)"

text \<open>\<open>@(-?\d+\.?\d*),(-?\d+\.?\d*),\<close> at the start of the string.\<close>

definition matchAt :: "string \<Rightarrow> (string \<times> string) option" where
  "matchAt s =
     (case stripPrefix ''@'' s of
        None \<Rightarrow> None
      | Some r \<Rightarrow>
         (case matchPair r of
            None \<Rightarrow> None
          | Some (a, b, r') \<Rightarrow> if startsWith r' '','' then Some (a, b) else None))"

text \<open>\<open>\/(-?\d+\.?\d*),(-?\d+\.?\d*)\<close> at the start of the string.\<close>

definition matchPath :: "string \<Rightarrow> (string \<times> string) option" where
  "matchPath s =
     (case stripPrefix ''/'' s of
        None \<Rightarrow> None
      | Some r \<Rightarrow> map_option (\<lambda>(a, b, _). (a, b)) (matchPair r))"

text \<open>
  \<open>-?\d{1,3}\.\d{4,}\<close> at the start of the string: an optional minus, one to three digits
  that a dot must follow (so a run of four digits or more does not match here), and four or
  more digits after the dot, read greedily.
\<close>

definition matchCoord :: "string \<Rightarrow> (string \<times> string) option" where
  "matchCoord s =
     (let sgn = (if startsWith s ''-'' then ''-'' else []);
          s1 = (if startsWith s ''-'' then drop 1 s else s);
          ds = takeWhile isDigit s1;
          s2 = dropWhile isDigit s1
      in if length ds < 1 \<or> length ds > 3 \<or> \<not> startsWith s2 ''.'' then None
         else
           let fs = takeWhile isDigit (drop 1 s2);
               s3 = dropWhile isDigit (drop 1 s2)
           in if length fs < 4 then None else Some (sgn @ ds @ ''.'' @ fs, s3))"

text \<open>\<open>(-?\d{1,3}\.\d{4,}),\s*(-?\d{1,3}\.\d{4,})\<close> at the start of the string.\<close>

definition matchCoordPair :: "string \<Rightarrow> (string \<times> string) option" where
  "matchCoordPair s =
     (case matchCoord s of
        None \<Rightarrow> None
      | Some (a, r) \<Rightarrow>
         (case stripPrefix '','' r of
            None \<Rightarrow> None
          | Some r' \<Rightarrow>
             (case matchCoord (dropWhile isSpace r') of
                None \<Rightarrow> None
              | Some (b, _) \<Rightarrow> Some (a, b))))"

definition shortUrlError :: string where
  "shortUrlError = ''Short URLs need to be expanded. Please visit the link and copy the full URL from your browser.''"

definition noCoordinatesError :: string where
  "noCoordinatesError = ''Could not extract coordinates from this URL. Please ensure it'' @ [CHR 0x27] @ ''s a valid Google Maps URL with location information.''"

definition coordinates :: "string \<times> string \<Rightarrow> jsnum \<times> jsnum" where
  "coordinates m = (parseFloat (fst m), parseFloat (snd m))"

text \<open>\<open>lat >= -90 && lat <= 90 && lng >= -180 && lng <= 180\<close>.\<close>

definition inRange :: "jsnum \<Rightarrow> jsnum \<Rightarrow> bool" where
  "inRange lat lng = (num_ge lat (- 90) \<and> num_le lat 90 \<and> num_ge lng (- 180) \<and> num_le lng 180)"

text \<open>
  \<open>parseGoogleMapsUrl\<close>: \<open>Ok (latitude, longitude)\<close> is \<open>{success: true, ...}\<close>, \<open>Fail e\<close>
  is \<open>{success: false, error: e}\<close>. The \<open>catch\<close> branch needs a \<open>url\<close> that is not a
  string, which the type leaves out.
\<close>

definition parseGoogleMapsUrl :: "string \<Rightarrow> (jsnum \<times> jsnum) result" where
  "parseGoogleMapsUrl url =
     (let cleanUrl = trim url in
      case searchFrom (matchParam ''q'') cleanUrl of
        Some m \<Rightarrow> Ok (coordinates m)
      | None \<Rightarrow>
      (case searchFrom matchAt cleanUrl of
        Some m \<Rightarrow> Ok (coordinates m)
      | None \<Rightarrow>
      (case searchFrom matchPath cleanUrl of
        Some m \<Rightarrow> Ok (coordinates m)
      | None \<Rightarrow>
      (case searchFrom (matchParam ''ll'') cleanUrl of
        Some m \<Rightarrow> Ok (coordinates m)
      | None \<Rightarrow>
      (case searchFrom (matchParam ''center'') cleanUrl of
        Some m \<Rightarrow> Ok (coordinates m)
      | None \<Rightarrow>
      if includesStr cleanUrl ''goo.gl/maps'' \<or> includesStr cleanUrl ''maps.app.goo.gl''
      then Fail shortUrlError
      else
        (case searchFrom matchCoordPair cleanUrl of
           Some m \<Rightarrow>
             (let lat = parseFloat (fst m); lng = parseFloat (snd m) in
              if inRange lat lng
              then Ok (lat, lng)
              else Fail noCoordinatesError)
         | None \<Rightarrow> Fail noCoordinatesError))))))"

text \<open>\<open>validateCoordinates\<close>; both arguments are numbers by their type.\<close>

definition validateCoordinates :: "jsnum \<Rightarrow> jsnum \<Rightarrow> unit result" where
  "validateCoordinates latitude longitude =
     (if isNaN latitude \<or> isNaN longitude then Fail ''Invalid coordinate values''
      else if num_lt latitude (- 90) \<or> num_gt latitude 90
      then Fail ''Latitude must be between -90 and 90 degrees''
      else if num_lt longitude (- 180) \<or> num_gt longitude 180
      then Fail ''Longitude must be between -180 and 180 degrees''
      else Ok ())"

text \<open>
  \<open>generateGeoUri\<close>. \<open>parseFloat\<close> of a number gives the number back. \<open>None\<close> stands for the
  exponential notation of \<open>toFixed6\<close>.
\<close>

definition generateGeoUri :: "jsnum \<Rightarrow> jsnum \<Rightarrow> string option" where
  "generateGeoUri latitude longitude =
     (case toFixed6 latitude of
        None \<Rightarrow> None
      | Some lat \<Rightarrow>
         (case toFixed6 longitude of
            None \<Rightarrow> None
          | Some lng \<Rightarrow> Some (''geo:'' @ lat @ '','' @ lng)))"

section \<open>Percent-encoding\<close>

definition isLower :: "char \<Rightarrow> bool" where
  "isLower c = (97 \<le> code c \<and> code c \<le> 122)"

definition isAlnum :: "char \<Rightarrow> bool" where
  "isAlnum c = (isUpper c \<or> isLower c \<or> isDigit c)"

definition hexDigit :: "nat \<Rightarrow> char" where
  "hexDigit n = ''0123456789ABCDEF'' ! (n mod 16)"

definition percentByte :: "nat \<Rightarrow> string" where
  "percentByte b = [CHR ''%'', hexDigit (b div 16), hexDigit b]"

text \<open>
  \<open>encodeURIComponent\<close> on the characters of the model: letters, digits and
  \<open>- _ . ! ~ * ' ( )\<close> stay, every other character is written as the percent-encoded bytes
  of its UTF-8 form, one byte below code 128 and two bytes from 128 to 255.
\<close>

definition uriUnreserved :: "char \<Rightarrow> bool" where
  "uriUnreserved c = (isAlnum c \<or> c \<in> set (''-_.!~*()'' @ [CHR 0x27]))"

definition encodeURIComponent :: "string \<Rightarrow> string" where
  "encodeURIComponent s =
     concat (map (\<lambda>c. if uriUnreserved c then [c]
                        else if code c < 128 then percentByte (code c)
                        else percentByte (192 + code c div 64) @ percentByte (128 + code c mod 64)) s)"

section \<open>E-mail (the EmailQRGenerator class)\<close>

record emailData =
  recipient :: string
  subject :: "string option"
  body :: "string option"







section \<open>Payment QR codes (payment-qr-generator.js, generateQR)\<close>

record qrData =
  dataURL :: string
  paymentString :: string
  timestamp :: int

text \<open>
  \<open>PaymentQRGenerator.generateQR\<close>. \<open>QRCode.toDataURL\<close> is a parameter and \<open>now\<close> is what
  \<open>Date.now()\<close> returns.
\<close>

definition PaymentQRGenerator_generateQR ::
  "(string \<Rightarrow> string outcome) \<Rightarrow> int \<Rightarrow> string \<Rightarrow> qrData outcome" where
  "PaymentQRGenerator_generateQR toDataURL now payment =
     (case (if payment = [] then Thrown ''Invalid payment string provided''
            else (case toDataURL payment of
                    Thrown m \<Rightarrow> Thrown m
                  | Returned qrDataURL \<Rightarrow>
                     Returned \<lparr>dataURL = qrDataURL, paymentString = payment, timestamp = now\<rparr>))
      of Returned r \<Rightarrow> Returned r
       | Thrown m \<Rightarrow> Thrown (''Failed to generate QR code: '' @ m))"

section \<open>Dates of the platform\<close>

definition toStringInt :: "int \<Rightarrow> string" where
  "toStringInt i = (if i < 0 then CHR ''-'' # toStringNat (nat (- i)) else toStringNat (nat i))"

definition padStart :: "nat \<Rightarrow> char \<Rightarrow> string \<Rightarrow> string" where
  "padStart n c s = replicate (n - length s) c @ s"

definition pad2 :: "int \<Rightarrow> string" where
  "pad2 i = padStart 2 (CHR ''0'') (toStringInt i)"

definition msPerDay :: int where
  "msPerDay = 86400000"

text \<open>
  A \<open>Date\<close> object is its time value, milliseconds since 1970-01-01T00:00Z, or \<open>None\<close> for
  an invalid date. Day numbers and civil dates of the proleptic Gregorian calendar are
  converted by the usual era arithmetic.
\<close>

definition daysFromCivil :: "int \<Rightarrow> int \<Rightarrow> int \<Rightarrow> int" where
  "daysFromCivil y m d =
     (let y' = (if m \<le> 2 then y - 1 else y);
          era = y' div 400;
          yoe = y' - era * 400;
          doy = (153 * (if m > 2 then m - 3 else m + 9) + 2) div 5 + d - 1;
          doe = yoe * 365 + yoe div 4 - yoe div 100 + doy
      in era * 146097 + doe - 719468)"

definition civilFromDays :: "int \<Rightarrow> int \<times> int \<times> int" where
  "civilFromDays z0 =
     (let z = z0 + 719468;
          era = z div 146097;
          doe = z - era * 146097;
          yoe = (doe - doe div 1460 + doe div 36524 - doe div 146096) div 365;
          y = yoe + era * 400;
          doy = doe - (365 * yoe + yoe div 4 - yoe div 100);
          mp = (5 * doy + 2) div 153;
          d = doy - (153 * mp + 2) div 5 + 1;
          m = (if mp < 10 then mp + 3 else mp - 9)
      in (if m \<le> 2 then y + 1 else y, m, d))"

text \<open>\<open>Date.prototype.toISOString\<close> of a valid date: \<open>YYYY-MM-DDTHH:mm:ss.sssZ\<close>.\<close>

definition toISOString :: "int \<Rightarrow> string" where
  "toISOString t =
     (let (y, m, d) = civilFromDays (t div msPerDay);
          ms = t mod msPerDay;
          year = (if 0 \<le> y \<and> y \<le> 9999 then padStart 4 (CHR ''0'') (toStringInt y)
                  else (if y < 0 then ''-'' else ''+'') @ padStart 6 (CHR ''0'') (toStringInt \<bar>y\<bar>))
      in year @ ''-'' @ pad2 m @ ''-'' @ pad2 d @ ''T'' @ pad2 (ms div 3600000) @ '':''
         @ pad2 (ms div 60000 mod 60) @ '':'' @ pad2 (ms div 1000 mod 60) @ ''.''
         @ padStart 3 (CHR ''0'') (toStringInt (ms mod 1000)) @ ''Z'')"

definition timeClip :: "int \<Rightarrow> int option" where
  "timeClip t = (if \<bar>t\<bar> > 8640000000000000 then None else Some t)"

text \<open>
  What depends on the machine the script runs on: how \<open>new Date(string)\<close> reads a string,
  and the conversions between UTC and local time.
\<close>

record host =
  parseDate :: "string \<Rightarrow> int option"
  localTime :: "int \<Rightarrow> int"
  utcTime :: "int \<Rightarrow> int"

text \<open>
  A host in the UTC zone. Of the date strings it reads the form \<open>YYYY-MM-DD\<close>, which a date
  input sends and which means midnight UTC; every other string is an invalid date here.
\<close>

definition daysInMonth :: "int \<Rightarrow> int \<Rightarrow> int" where
  "daysInMonth y m =
     (if m = 2 then (if y mod 4 = 0 \<and> (y mod 100 \<noteq> 0 \<or> y mod 400 = 0) then 29 else 28)
      else if m = 4 \<or> m = 6 \<or> m = 9 \<or> m = 11 then 30 else 31)"

definition parseIsoDate :: "string \<Rightarrow> int option" where
  "parseIsoDate s =
     (if length s = 10 \<and> list_all isDigit (take 4 s) \<and> s ! 4 = CHR ''-''
         \<and> list_all isDigit (take 2 (drop 5 s)) \<and> s ! 7 = CHR ''-''
         \<and> list_all isDigit (drop 8 s)
      then
        (let y = int (decimalValue (take 4 s));
             m = int (decimalValue (take 2 (drop 5 s)));
             d = int (decimalValue (drop 8 s))
         in if 1 \<le> m \<and> m \<le> 12 \<and> 1 \<le> d \<and> d \<le> daysInMonth y m
            then Some (daysFromCivil y m d * msPerDay) else None)
      else None)"

definition utcHost :: host where
  "utcHost = \<lparr>parseDate = parseIsoDate, localTime = (\<lambda>t. t), utcTime = (\<lambda>t. t)\<rparr>"

text \<open>
  \<open>parseInt\<close> with no radix: leading white space, an optional sign, then hexadecimal digits
  after \<open>0x\<close> or decimal digits; \<open>None\<close> is \<open>NaN\<close>.
\<close>

definition hexValue :: "string \<Rightarrow> nat" where
  "hexValue s =
     foldl (\<lambda>a c. a * 16 + (if isDigit c then code c - 48
                              else if code c \<ge> 97 then code c - 87 else code c - 55)) 0 s"

definition parseInt :: "string \<Rightarrow> int option" where
  "parseInt str =
     (let s0 = trimStart str;
          sgn = (if startsWith s0 ''-'' then - 1 else 1);
          s1 = (if startsWith s0 ''-'' \<or> startsWith s0 ''+'' then drop 1 s0 else s0)
      in if startsWith s1 ''0x'' \<or> startsWith s1 ''0X'' then
           (if takeWhile isHexDigit (drop 2 s1) = [] then None
            else Some (sgn * int (hexValue (takeWhile isHexDigit (drop 2 s1)))))
         else
           (if takeWhile isDigit s1 = [] then None
            else Some (sgn * int (decimalValue (takeWhile isDigit s1)))))"

text \<open>\<open>dateObj.setHours(hours, minutes, 0, 0)\<close> in the host's local time.\<close>

definition setHours :: "host \<Rightarrow> int option \<Rightarrow> int option \<Rightarrow> int option \<Rightarrow> int option" where
  "setHours h dateObj hours minutes =
     (case dateObj of
        None \<Rightarrow> None
      | Some tv \<Rightarrow>
         (case hours of
            None \<Rightarrow> None
          | Some hh \<Rightarrow>
             (case minutes of
                None \<Rightarrow> None
              | Some mm \<Rightarrow>
                 timeClip (utcTime h ((localTime h tv div msPerDay) * msPerDay
                                       + hh * 3600000 + mm * 60000)))))"

section \<open>Calendar events (the EventQRGenerator class)\<close>

text \<open>A form field that was left empty is the empty string.\<close>

record eventData =
  eventTitle :: string
  startDate :: string
  startTime :: string
  endDate :: string
  endTime :: string
  allDay :: bool
  eventDescription :: string
  eventLocation :: string
  eventOrganizer :: string
  eventUrl :: string

text \<open>\<open>iso.replace(/[-:]/g, '').split('.')[0] + 'Z'\<close>.\<close>

definition compactStamp :: "string \<Rightarrow> string" where
  "compactStamp isoText =
     hd (splitOn (CHR ''.'') (replaceChar (CHR '':'') [] (replaceChar (CHR ''-'') [] isoText))) @ ''Z''"

definition escapeICalText :: "string \<Rightarrow> string" where
  "escapeICalText txt =
     (if txt = [] then []
      else replaceChar CR []
             (replaceChar LF [BSL, CHR ''n'']
               (replaceChar (CHR '','') [BSL, CHR '','']
                 (replaceChar (CHR '';'') [BSL, CHR '';'']
                   (replaceChar BSL [BSL, BSL] txt)))))"

text \<open>
  \<open>formatICalDateTime\<close>. An invalid date prints \<open>NaN\<close> for each of its fields, and its
  \<open>toISOString\<close> throws a \<open>RangeError\<close>.
\<close>

definition formatICalDateTime :: "host \<Rightarrow> string \<Rightarrow> string \<Rightarrow> bool \<Rightarrow> string outcome" where
  "formatICalDateTime h date time isAllDay =
     (if date = [] then Returned []
      else let dateObj = parseDate h date in
        if isAllDay then
          (case dateObj of
             None \<Rightarrow> Returned (''NaN'' @ ''NaN'' @ ''NaN'')
           | Some tv \<Rightarrow>
              (let (year, month, day) = civilFromDays (localTime h tv div msPerDay)
               in Returned (toStringInt year @ pad2 month @ pad2 day)))
        else
          (let dateObj =
                 (if time \<noteq> [] then
                    (let parts = splitOn (CHR '':'') time
                     in setHours h dateObj (parseInt (hd parts))
                          (if length parts < 2 then None else parseInt (parts ! 1)))
                  else dateObj)
           in case dateObj of
                None \<Rightarrow> Thrown ''Invalid time value''
              | Some tv \<Rightarrow> Returned (compactStamp (toISOString tv))))"

text \<open>
  \<open>organizerText.match(/([^<>\s]+@[^<>\s]+)/)\<close>. Both groups are greedy and \<open>@\<close> is itself a
  character of the class, so at a given start the match is the whole run of class characters,
  and there is one exactly when the run has an \<open>@\<close> that is neither its first nor its last
  character.
\<close>

definition organizerChar :: "char \<Rightarrow> bool" where
  "organizerChar c = (\<not> isSpace c \<and> c \<noteq> CHR ''<'' \<and> c \<noteq> CHR ''>'')"

definition matchOrganizerEmail :: "string \<Rightarrow> string option" where
  "matchOrganizerEmail s =
     (let run = takeWhile organizerChar s
      in if CHR ''@'' \<in> set (butlast (drop 1 run)) then Some run else None)"

text \<open>\<open>s.replace(p, '')\<close> for a string \<open>p\<close>: the first occurrence is removed.\<close>

fun removeFirst :: "string \<Rightarrow> string \<Rightarrow> string" where
  "removeFirst p [] = []"
| "removeFirst p (c # cs) =
     (if startsWith (c # cs) p then drop (length p) (c # cs) else c # removeFirst p cs)"

definition organizerLine :: "string \<Rightarrow> string" where
  "organizerLine organizerText =
     (case searchFrom matchOrganizerEmail organizerText of
        Some email \<Rightarrow>
          (let name = trim (removeFirst email
                        (filter (\<lambda>c. c \<notin> set ''<>()'') organizerText))
           in if name \<noteq> []
              then ''ORGANIZER;CN='' @ [DQ] @ escapeICalText name @ [DQ] @ '':MAILTO:'' @ email @ [LF]
              else ''ORGANIZER:MAILTO:'' @ email @ [LF])
      | None \<Rightarrow>
          ''ORGANIZER;CN='' @ [DQ] @ escapeICalText organizerText @ [DQ]
          @ '':MAILTO:noreply@qubex.it'' @ [LF])"

text \<open>
  \<open>generateICalString\<close>. The method reads the clock twice: \<open>newDate\<close> is the time value of
  \<open>new Date()\<close> and \<open>dateNow\<close> is what \<open>Date.now()\<close> returns.
\<close>

definition generateICalString :: "host \<Rightarrow> int \<Rightarrow> int \<Rightarrow> eventData \<Rightarrow> string outcome" where
  "generateICalString h newDate dateNow e =
     (let timestamp = compactStamp (toISOString newDate);
          eventId = ''event-'' @ toStringInt dateNow @ ''@qubex.it'';
          ical = ''BEGIN:VCALENDAR'' @ [LF];
          ical = ical @ ''VERSION:2.0'' @ [LF];
          ical = ical @ ''PRODID:-//Qubex Tools//Event QR Generator//EN'' @ [LF];
          ical = ical @ ''CALSCALE:GREGORIAN'' @ [LF];
          ical = ical @ ''METHOD:PUBLISH'' @ [LF];
          ical = ical @ ''BEGIN:VEVENT'' @ [LF];
          ical = ical @ ''UID:'' @ eventId @ [LF];
          ical = ical @ ''DTSTAMP:'' @ timestamp @ [LF];
          ical = (if eventTitle e \<noteq> []
                  then ical @ ''SUMMARY:'' @ escapeICalText (eventTitle e) @ [LF] else ical)
      in case formatICalDateTime h (startDate e) (startTime e) (allDay e) of
           Thrown m \<Rightarrow> Thrown m
         | Returned startDateTime \<Rightarrow>
            (case formatICalDateTime h (endDate e) (endTime e) (allDay e) of
               Thrown m \<Rightarrow> Thrown m
             | Returned endDateTime \<Rightarrow>
                (let ical = (if allDay e
                             then ical @ ''DTSTART;VALUE=DATE:'' @ startDateTime @ [LF]
                                       @ ''DTEND;VALUE=DATE:'' @ endDateTime @ [LF]
                             else ical @ ''DTSTART:'' @ startDateTime @ [LF]
                                       @ ''DTEND:'' @ endDateTime @ [LF]);
                     ical = (if eventDescription e \<noteq> []
                             then ical @ ''DESCRIPTION:'' @ escapeICalText (eventDescription e) @ [LF]
                             else ical);
                     ical = (if eventLocation e \<noteq> []
                             then ical @ ''LOCATION:'' @ escapeICalText (eventLocation e) @ [LF]
                             else ical);
                     ical = (if eventOrganizer e \<noteq> []
                             then ical @ organizerLine (eventOrganizer e) else ical);
                     ical = (if eventUrl e \<noteq> [] then ical @ ''URL:'' @ eventUrl e @ [LF] else ical);
                     ical = ical @ ''STATUS:CONFIRMED'' @ [LF];
                     ical = ical @ ''TRANSP:OPAQUE'' @ [LF];
                     ical = ical @ ''SEQUENCE:0'' @ [LF];
                     ical = ical @ ''CREATED:'' @ timestamp @ [LF];
                     ical = ical @ ''LAST-MODIFIED:'' @ timestamp @ [LF];
                     ical = ical @ ''END:VEVENT'' @ [LF];
                     ical = ical @ ''END:VCALENDAR''
                 in Returned ical)))"

text \<open>
  The parts of that output, for the statements below: the lines that carry a clock reading,
  before and after the event's own lines, and the event's own lines.
\<close>

definition icalHead :: "string \<Rightarrow> string \<Rightarrow> string" where
  "icalHead stamp uid =
     ''BEGIN:VCALENDAR'' @ [LF] @ ''VERSION:2.0'' @ [LF]
     @ ''PRODID:-//Qubex Tools//Event QR Generator//EN'' @ [LF]
     @ ''CALSCALE:GREGORIAN'' @ [LF] @ ''METHOD:PUBLISH'' @ [LF] @ ''BEGIN:VEVENT'' @ [LF]
     @ ''UID:event-'' @ uid @ ''@qubex.it'' @ [LF] @ ''DTSTAMP:'' @ stamp @ [LF]"

definition icalTail :: "string \<Rightarrow> string" where
  "icalTail stamp =
     ''STATUS:CONFIRMED'' @ [LF] @ ''TRANSP:OPAQUE'' @ [LF] @ ''SEQUENCE:0'' @ [LF]
     @ ''CREATED:'' @ stamp @ [LF] @ ''LAST-MODIFIED:'' @ stamp @ [LF]
     @ ''END:VEVENT'' @ [LF] @ ''END:VCALENDAR''"

definition eventLines :: "host \<Rightarrow> eventData \<Rightarrow> string outcome" where
  "eventLines h e =
     (case formatICalDateTime h (startDate e) (startTime e) (allDay e) of
        Thrown m \<Rightarrow> Thrown m
      | Returned startDateTime \<Rightarrow>
         (case formatICalDateTime h (endDate e) (endTime e) (allDay e) of
            Thrown m \<Rightarrow> Thrown m
          | Returned endDateTime \<Rightarrow>
             Returned
               ((if eventTitle e \<noteq> [] then ''SUMMARY:'' @ escapeICalText (eventTitle e) @ [LF] else [])
                @ (if allDay e
                   then ''DTSTART;VALUE=DATE:'' @ startDateTime @ [LF]
                        @ ''DTEND;VALUE=DATE:'' @ endDateTime @ [LF]
                   else ''DTSTART:'' @ startDateTime @ [LF] @ ''DTEND:'' @ endDateTime @ [LF])
                @ (if eventDescription e \<noteq> []
                   then ''DESCRIPTION:'' @ escapeICalText (eventDescription e) @ [LF] else [])
                @ (if eventLocation e \<noteq> []
                   then ''LOCATION:'' @ escapeICalText (eventLocation e) @ [LF] else [])
                @ (if eventOrganizer e \<noteq> [] then organizerLine (eventOrganizer e) else [])
                @ (if eventUrl e \<noteq> [] then ''URL:'' @ eventUrl e @ [LF] else []))))"

definition launchParty :: eventData where
  "launchParty =
     \<lparr>eventTitle = ''Launch, party'', startDate = ''2025-06-01'', startTime = [],
      endDate = ''2025-06-02'', endTime = [], allDay = True, eventDescription = [],
      eventLocation = ''Room 1;2'', eventOrganizer = ''Jane Doe <jane@example.com>'',
      eventUrl = []\<rparr>"

section \<open>Payments (payment-form-validator.js, main.js, payment-qr-generator.js)\<close>

text \<open>
  \<open>Object.fromEntries(formData.entries())\<close>: every field of the payment form is a string,
  the empty string where nothing was entered.
\<close>

record paymentData =
  paymentType :: string
  paypalUsername :: string
  paypalAmount :: string
  cryptoAddress :: string
  cryptoAmount :: string
  upiId :: string
  upiName :: string
  upiAmount :: string
  ibanCode :: string
  ibanName :: string
  ibanAmount :: string
  paymentUrl :: string

text \<open>\<open>paymentData[field]\<close> for the field names of the rule table.\<close>

definition fieldValue :: "paymentData \<Rightarrow> string \<Rightarrow> string" where
  "fieldValue p field =
     (if field = ''paymentType'' then paymentType p
      else if field = ''paypalUsername'' then paypalUsername p
      else if field = ''cryptoAddress'' then cryptoAddress p
      else if field = ''upiId'' then upiId p
      else if field = ''upiName'' then upiName p
      else if field = ''ibanCode'' then ibanCode p
      else if field = ''ibanName'' then ibanName p
      else if field = ''paymentUrl'' then paymentUrl p
      else [])"

text \<open>The \<open>required\<close> lists of \<open>validationRules\<close>; \<open>None\<close> for a type the table lacks.\<close>

definition requiredFields :: "string \<Rightarrow> string list option" where
  "requiredFields t =
     (if t = ''paypal'' then Some [''paymentType'', ''paypalUsername'']
      else if t = ''bitcoin'' then Some [''paymentType'', ''cryptoAddress'']
      else if t = ''ethereum'' then Some [''paymentType'', ''cryptoAddress'']
      else if t = ''upi'' then Some [''paymentType'', ''upiId'', ''upiName'']
      else if t = ''iban'' then Some [''paymentType'', ''ibanCode'', ''ibanName'']
      else if t = ''url'' then Some [''paymentType'', ''paymentUrl'']
      else None)"

definition getFieldErrorMessage :: "string \<Rightarrow> string" where
  "getFieldErrorMessage field =
     (if field = ''paymentType'' then ''Please select a payment type''
      else if field = ''paypalUsername'' then ''PayPal username is required''
      else if field = ''cryptoAddress'' then ''Wallet address is required''
      else if field = ''upiId'' then ''UPI ID is required''
      else if field = ''upiName'' then ''Payee name is required''
      else if field = ''ibanCode'' then ''IBAN code is required''
      else if field = ''ibanName'' then ''Account holder name is required''
      else if field = ''paymentUrl'' then ''Payment URL is required''
      else field @ '' is required'')"

text \<open>The character classes of the validators' patterns.\<close>

definition userChar :: "char \<Rightarrow> bool" where
  "userChar c = (isAlnum c \<or> c = CHR ''.'' \<or> c = CHR ''_'' \<or> c = CHR ''-'')"

definition base58Char :: "char \<Rightarrow> bool" where
  "base58Char c =
     ((isLower c \<and> c \<noteq> CHR ''l'') \<or> (isUpper c \<and> c \<noteq> CHR ''I'' \<and> c \<noteq> CHR ''O'')
      \<or> (isDigit c \<and> c \<noteq> CHR ''0''))"

definition nameChar :: "char \<Rightarrow> bool" where
  "nameChar c = (isUpper c \<or> isLower c \<or> isSpace c \<or> c = CHR ''.'' \<or> c = CHR 0x27 \<or> c = CHR ''-'')"

definition ibanChar :: "char \<Rightarrow> bool" where
  "ibanChar c = (isUpper c \<or> isDigit c)"

text \<open>\<open>/^[a-zA-Z0-9._-]+$/\<close>.\<close>

definition usernameRegex :: "string \<Rightarrow> bool" where
  "usernameRegex s = (s \<noteq> [] \<and> list_all userChar s)"

text \<open>\<open>/^[13][a-km-zA-HJ-NP-Z1-9]{25,34}$/\<close>.\<close>

definition bitcoinRegex :: "string \<Rightarrow> bool" where
  "bitcoinRegex s =
     (case s of
        [] \<Rightarrow> False
      | c # r \<Rightarrow> (c = CHR ''1'' \<or> c = CHR ''3'') \<and> 25 \<le> length r \<and> length r \<le> 34
                 \<and> list_all base58Char r)"

text \<open>\<open>/^0x[a-fA-F0-9]{40}$/\<close>.\<close>

definition ethereumRegex :: "string \<Rightarrow> bool" where
  "ethereumRegex s = (startsWith s ''0x'' \<and> length (drop 2 s) = 40 \<and> list_all isHexDigit (drop 2 s))"

text \<open>\<open>/^[a-zA-Z0-9._-]+@[a-zA-Z0-9._-]+$/\<close>.\<close>

definition upiRegex :: "string \<Rightarrow> bool" where
  "upiRegex s =
     (let localPart = takeWhile userChar s;
          rest = dropWhile userChar s
      in localPart \<noteq> [] \<and> startsWith rest ''@'' \<and> drop 1 rest \<noteq> []
         \<and> list_all userChar (drop 1 rest))"

text \<open>\<open>/^[a-zA-Z\s.'-]+$/\<close>.\<close>

definition nameRegex :: "string \<Rightarrow> bool" where
  "nameRegex s = (s \<noteq> [] \<and> list_all nameChar s)"

text \<open>
  \<open>[A-Z]{2}[0-9]{2}[A-Z0-9]{4}[0-9]{7}([A-Z0-9]?){0,16}\<close> at the start of a string, read
  greedily: the fifteen characters of the fixed part and up to sixteen more letters or
  digits; the result is the matched text and what follows it.
\<close>

definition matchIban :: "string \<Rightarrow> (string \<times> string) option" where
  "matchIban s =
     (if 15 \<le> length s \<and> list_all isUpper (take 2 s) \<and> list_all isDigit (take 2 (drop 2 s))
         \<and> list_all ibanChar (take 4 (drop 4 s)) \<and> list_all isDigit (take 7 (drop 8 s))
      then (let more = take 16 (takeWhile ibanChar (drop 15 s))
            in Some (take 15 s @ more, drop (15 + length more) s))
      else None)"

text \<open>\<open>/^[A-Z]{2}[0-9]{2}[A-Z0-9]{4}[0-9]{7}([A-Z0-9]?){0,16}$/\<close>.\<close>

definition ibanRegex :: "string \<Rightarrow> bool" where
  "ibanRegex s = (case matchIban s of None \<Rightarrow> False | Some (_, rest) \<Rightarrow> rest = [])"

text \<open>
  \<open>String.prototype.toUpperCase\<close> on the characters of the model. The sharp s becomes
  \<open>SS\<close>; the capitals of the micro sign and of y with diaeresis lie above code 255 and are
  left as they are here (neither they nor their capitals are letters of an IBAN).
\<close>

definition toUpperCase :: "string \<Rightarrow> string" where
  "toUpperCase s =
     concat (map (\<lambda>c. if isLower c then [char_of (code c - 32)]
                        else if code c = 223 then ''SS''
                        else if 224 \<le> code c \<and> code c \<le> 254 \<and> code c \<noteq> 247
                        then [char_of (code c - 32)]
                        else [c]) s)"

text \<open>\<open>String.prototype.toLowerCase\<close> on the characters of the model.\<close>

definition toLowerCase :: "string \<Rightarrow> string" where
  "toLowerCase s =
     map (\<lambda>c. if isUpper c then char_of (code c + 32)
               else if 192 \<le> code c \<and> code c \<le> 222 \<and> code c \<noteq> 215 then char_of (code c + 32)
               else c) s"

text \<open>
  The body of an amount check, shared in shape by the five validators: \<open>parseFloat\<close>, then
  the test for a positive number, then the cap.
\<close>

definition amountErrors :: "string \<Rightarrow> string \<Rightarrow> rat \<Rightarrow> string \<Rightarrow> string list" where
  "amountErrors amountText positiveMessage cap capMessage =
     (if amountText \<noteq> [] \<and> trim amountText \<noteq> [] then
        (let amount = parseFloat amountText
         in (if isNaN amount \<or> num_le amount 0 then [positiveMessage] else [])
            @ (if num_gt amount cap then [capMessage] else []))
      else [])"

definition validatePayPalData :: "paymentData \<Rightarrow> string list" where
  "validatePayPalData p =
     (if paypalUsername p \<noteq> [] then
        (if \<not> usernameRegex (paypalUsername p)
         then [''PayPal username can only contain letters, numbers, dots, underscores, and hyphens'']
         else [])
        @ (if length (paypalUsername p) < 3
           then [''PayPal username must be at least 3 characters long''] else [])
        @ (if length (paypalUsername p) > 50
           then [''PayPal username must be less than 50 characters''] else [])
      else [])
     @ amountErrors (paypalAmount p) ''PayPal amount must be a positive number'' 10000
         ''PayPal amount cannot exceed $10,000''"

definition validateBitcoinData :: "paymentData \<Rightarrow> string list" where
  "validateBitcoinData p =
     (if cryptoAddress p \<noteq> [] \<and> \<not> bitcoinRegex (cryptoAddress p)
      then [''Invalid Bitcoin address format''] else [])
     @ amountErrors (cryptoAmount p) ''Bitcoin amount must be a positive number'' 21
         ''Bitcoin amount cannot exceed 21 BTC''"

definition validateEthereumData :: "paymentData \<Rightarrow> string list" where
  "validateEthereumData p =
     (if cryptoAddress p \<noteq> [] \<and> \<not> ethereumRegex (cryptoAddress p)
      then [''Invalid Ethereum address format (must start with 0x and be 42 characters long)'']
      else [])
     @ amountErrors (cryptoAmount p) ''Ethereum amount must be a positive number'' 1000
         ''Ethereum amount cannot exceed 1000 ETH''"

text \<open>
  The cap message of the UPI amount shows the rupee sign, a character above code 255; it is
  written here as \<open>Rs\<close>.
\<close>

definition validateUPIData :: "paymentData \<Rightarrow> string list" where
  "validateUPIData p =
     (if upiId p \<noteq> [] \<and> \<not> upiRegex (upiId p)
      then [''Invalid UPI ID format (should be like user@bank)''] else [])
     @ (if upiName p \<noteq> [] then
          (if length (upiName p) < 2 then [''Payee name must be at least 2 characters long''] else [])
          @ (if length (upiName p) > 100 then [''Payee name must be less than 100 characters''] else [])
          @ (if \<not> nameRegex (upiName p)
             then [''Payee name can only contain letters, spaces, dots, apostrophes, and hyphens'']
             else [])
        else [])
     @ amountErrors (upiAmount p) ''UPI amount must be a positive number'' 100000
         ''UPI amount cannot exceed Rs 1,00,000''"

text \<open>The cap message of the IBAN amount shows the euro sign; it is written \<open>EUR\<close> here.\<close>

definition validateIBANData :: "paymentData \<Rightarrow> string list" where
  "validateIBANData p =
     (if ibanCode p \<noteq> [] then
        (let cleanIban = toUpperCase (filter (\<lambda>c. \<not> isSpace c) (ibanCode p))
         in if \<not> ibanRegex cleanIban then [''Invalid IBAN format'']
            else if \<not> validateIBANChecksum cleanIban then [''Invalid IBAN checksum'']
            else [])
      else [])
     @ (if ibanName p \<noteq> [] then
          (if length (ibanName p) < 2
           then [''Account holder name must be at least 2 characters long''] else [])
          @ (if length (ibanName p) > 100
             then [''Account holder name must be less than 100 characters''] else [])
          @ (if \<not> nameRegex (ibanName p)
             then [''Account holder name can only contain letters, spaces, dots, apostrophes, and hyphens'']
             else [])
        else [])
     @ amountErrors (ibanAmount p) ''IBAN amount must be a positive number'' 999999
         ''IBAN amount cannot exceed EUR 999,999''"

text \<open>The seven case-insensitive patterns of \<open>containsSuspiciousPatterns\<close>.\<close>

definition containsSuspiciousPatterns :: "string \<Rightarrow> bool" where
  "containsSuspiciousPatterns url =
     list_ex (includesStr (toLowerCase url))
       [''javascript:'', ''data:'', ''vbscript:'', ''<script'', ''onclick'', ''onerror'', ''onload'']"

text \<open>
  \<open>validateURLData\<close>. The platform's URL parser is the parameter \<open>protocolOf\<close>: the
  \<open>protocol\<close> of \<open>new URL(text)\<close>, or \<open>None\<close> where the constructor throws.
\<close>

definition validateURLData :: "(string \<Rightarrow> string option) \<Rightarrow> paymentData \<Rightarrow> string list" where
  "validateURLData protocolOf p =
     (if paymentUrl p \<noteq> [] then
        (case protocolOf (paymentUrl p) of
           None \<Rightarrow> [''Invalid payment URL format'']
         | Some protocol \<Rightarrow>
            (if protocol \<noteq> ''http:'' \<and> protocol \<noteq> ''https:''
             then [''Payment URL must use HTTP or HTTPS protocol''] else [])
            @ (if length (paymentUrl p) > 2048
               then [''Payment URL is too long (maximum 2048 characters)''] else [])
            @ (if containsSuspiciousPatterns (paymentUrl p)
               then [''Payment URL contains suspicious patterns''] else []))
      else [])"

text \<open>
  The names that the object literal \<open>validationRules\<close> answers to without having them as
  keys of its own: the properties every object inherits from \<open>Object.prototype\<close>. Each of
  them is a function, or for \<open>__proto__\<close> the prototype object, so
  \<open>!this.validationRules[paymentType]\<close> is false for it, and \<open>rules.required\<close> is then
  \<open>undefined\<close>.
\<close>

definition inheritedProperties :: "string list" where
  "inheritedProperties =
     [''constructor'', ''hasOwnProperty'', ''isPrototypeOf'', ''propertyIsEnumerable'',
      ''toLocaleString'', ''toString'', ''valueOf'', ''__proto__'', ''__defineGetter__'',
      ''__defineSetter__'', ''__lookupGetter__'', ''__lookupSetter__'']"

text \<open>
  The \<open>TypeError\<close> of \<open>for (const field of undefined)\<close>; the wording is that of V8 and differs
  between engines.
\<close>

definition notIterableError :: string where
  "notIterableError = ''rules.required is not iterable''"

text \<open>
  \<open>validatePaymentData\<close>: the list returned is \<open>errors\<close>, and \<open>isValid\<close> is its being empty.
  For a payment type that is an inherited property name the loop over \<open>rules.required\<close>
  throws.
\<close>

definition validatePaymentData ::
  "(string \<Rightarrow> string option) \<Rightarrow> paymentData \<Rightarrow> string list outcome" where
  "validatePaymentData protocolOf p =
     (if paymentType p = [] then Returned [''Please select a payment type'']
      else
        (case requiredFields (paymentType p) of
           None \<Rightarrow>
             if paymentType p \<in> set inheritedProperties then Thrown notIterableError
             else Returned [''Unsupported payment type selected'']
         | Some required \<Rightarrow>
            Returned
              (concat (map (\<lambda>field. if fieldValue p field = [] \<or> trim (fieldValue p field) = []
                                     then [getFieldErrorMessage field] else []) required)
               @ (if paymentType p = ''paypal'' then validatePayPalData p
                  else if paymentType p = ''bitcoin'' then validateBitcoinData p
                  else if paymentType p = ''ethereum'' then validateEthereumData p
                  else if paymentType p = ''upi'' then validateUPIData p
                  else if paymentType p = ''iban'' then validateIBANData p
                  else if paymentType p = ''url'' then validateURLData protocolOf p
                  else []))))"

text \<open>The encoders of main.js.\<close>

definition generatePayPalString :: "paymentData \<Rightarrow> string" where
  "generatePayPalString p =
     (let paypalUrl = ''https://paypal.me/'' @ paypalUsername p
      in if paypalAmount p \<noteq> [] \<and> num_gt (parseFloat (paypalAmount p)) 0
         then paypalUrl @ ''/'' @ paypalAmount p else paypalUrl)"

definition generateBitcoinString :: "paymentData \<Rightarrow> string" where
  "generateBitcoinString p =
     (let bitcoinUri = ''bitcoin:'' @ cryptoAddress p
      in if cryptoAmount p \<noteq> [] \<and> num_gt (parseFloat (cryptoAmount p)) 0
         then bitcoinUri @ ''?amount='' @ cryptoAmount p else bitcoinUri)"

definition generateEthereumString :: "paymentData \<Rightarrow> string" where
  "generateEthereumString p =
     (let ethereumUri = ''ethereum:'' @ cryptoAddress p
      in if cryptoAmount p \<noteq> [] \<and> num_gt (parseFloat (cryptoAmount p)) 0
         then ethereumUri @ ''?value='' @ cryptoAmount p else ethereumUri)"

definition generateUPIString :: "paymentData \<Rightarrow> string" where
  "generateUPIString p =
     (let upiString = ''upi://pay?pa='' @ upiId p @ ''&pn='' @ encodeURIComponent (upiName p)
      in if upiAmount p \<noteq> [] \<and> num_gt (parseFloat (upiAmount p)) 0
         then upiString @ ''&am='' @ upiAmount p @ ''&cu=INR'' else upiString)"

definition generateIBANString :: "paymentData \<Rightarrow> string" where
  "generateIBANString p =
     (let ibanString = ''iban:'' @ ibanCode p @ ''?beneficiary='' @ encodeURIComponent (ibanName p)
      in if ibanAmount p \<noteq> [] \<and> num_gt (parseFloat (ibanAmount p)) 0
         then ibanString @ ''&amount='' @ ibanAmount p @ ''&currency=EUR'' else ibanString)"

definition generatePaymentString :: "paymentData \<Rightarrow> string outcome" where
  "generatePaymentString p =
     (if paymentType p = ''paypal'' then Returned (generatePayPalString p)
      else if paymentType p = ''bitcoin'' then Returned (generateBitcoinString p)
      else if paymentType p = ''ethereum'' then Returned (generateEthereumString p)
      else if paymentType p = ''upi'' then Returned (generateUPIString p)
      else if paymentType p = ''iban'' then Returned (generateIBANString p)
      else if paymentType p = ''url'' then Returned (paymentUrl p)
      else Thrown ''Unsupported payment type'')"

text \<open>
  The decoder of payment-qr-generator.js. Each object it returns is a constructor below; a
  parameter that is absent is \<open>None\<close> (\<open>null\<close>). The platform's \<open>URLSearchParams\<close> is the
  parameter \<open>param\<close>: \<open>param query key\<close> is \<open>new URLSearchParams(query).get(key)\<close>.
\<close>

datatype paymentInfo =
    PayPalInfo string "string option" string
  | BitcoinInfo string "string option" "string option" "string option" string
  | EthereumInfo string "string option" "string option" "string option" string
  | UPIInfo "string option" "string option" "string option" "string option" "string option"
            "string option" "string option" string
  | IBANInfo string "string option" "string option" "string option" "string option" string
  | URLInfo string
  | RawInfo string string

definition getPaymentTypeFromString :: "string \<Rightarrow> string" where
  "getPaymentTypeFromString s =
     (if startsWith s ''https://paypal.me/'' then ''paypal''
      else if startsWith s ''bitcoin:'' then ''bitcoin''
      else if startsWith s ''ethereum:'' then ''ethereum''
      else if startsWith s ''upi://'' then ''upi''
      else if startsWith s ''iban:'' then ''iban''
      else if startsWith s ''http'' then ''url''
      else ''unknown'')"

text \<open>\<open>.\<close> in a pattern: any character but a line terminator.\<close>

definition notLineEnd :: "char \<Rightarrow> bool" where
  "notLineEnd c = (c \<noteq> LF \<and> c \<noteq> CR)"

text \<open>
  \<open>(?:\?(.*))?\<close> at the start of a string: the text captured after a question mark, or
  \<open>None\<close> where the group does not take part.
\<close>

definition matchQuery :: "string \<Rightarrow> string option" where
  "matchQuery s = (if startsWith s ''?'' then Some (takeWhile notLineEnd (drop 1 s)) else None)"

text \<open>\<open>match[2] || ''\<close>.\<close>

definition queryText :: "string option \<Rightarrow> string" where
  "queryText q = (case q of None \<Rightarrow> [] | Some t \<Rightarrow> t)"

text \<open>\<open>https:\/\/paypal\.me\/([a-zA-Z0-9._-]+)(?:\/(.+))?\<close> at the start of a string.\<close>

definition matchPayPal :: "string \<Rightarrow> (string \<times> string option) option" where
  "matchPayPal s =
     (case stripPrefix ''https://paypal.me/'' s of
        None \<Rightarrow> None
      | Some r \<Rightarrow>
         (let username = takeWhile userChar r;
              rest = dropWhile userChar r
          in if username = [] then None
             else if startsWith rest ''/'' \<and> takeWhile notLineEnd (drop 1 rest) \<noteq> []
             then Some (username, Some (takeWhile notLineEnd (drop 1 rest)))
             else Some (username, None)))"

definition extractPayPalInfo :: "string \<Rightarrow> paymentInfo" where
  "extractPayPalInfo s =
     (case searchFrom matchPayPal s of
        Some (username, amount) \<Rightarrow> PayPalInfo username amount s
      | None \<Rightarrow> RawInfo ''paypal'' s)"

text \<open>\<open>bitcoin:([13][a-km-zA-HJ-NP-Z1-9]{25,34})(?:\?(.*))?\<close> at the start of a string.\<close>

definition matchBitcoin :: "string \<Rightarrow> (string \<times> string option) option" where
  "matchBitcoin s =
     (case stripPrefix ''bitcoin:'' s of
        None \<Rightarrow> None
      | Some r \<Rightarrow>
         (if startsWith r ''1'' \<or> startsWith r ''3'' then
            (let body = take 34 (takeWhile base58Char (drop 1 r))
             in if length body < 25 then None
                else Some (take 1 r @ body, matchQuery (drop (1 + length body) r)))
          else None))"

definition extractBitcoinInfo :: "(string \<Rightarrow> string \<Rightarrow> string option) \<Rightarrow> string \<Rightarrow> paymentInfo" where
  "extractBitcoinInfo param s =
     (case searchFrom matchBitcoin s of
        Some (address, q) \<Rightarrow>
          BitcoinInfo address (param (queryText q) ''amount'') (param (queryText q) ''label'')
            (param (queryText q) ''message'') s
      | None \<Rightarrow> RawInfo ''bitcoin'' s)"

text \<open>\<open>ethereum:(0x[a-fA-F0-9]{40})(?:\?(.*))?\<close> at the start of a string.\<close>

definition matchEthereum :: "string \<Rightarrow> (string \<times> string option) option" where
  "matchEthereum s =
     (case stripPrefix ''ethereum:'' s of
        None \<Rightarrow> None
      | Some r \<Rightarrow>
         (if startsWith r ''0x'' \<and> length (take 40 (drop 2 r)) = 40
             \<and> list_all isHexDigit (take 40 (drop 2 r))
          then Some (take 42 r, matchQuery (drop 42 r))
          else None))"

definition extractEthereumInfo :: "(string \<Rightarrow> string \<Rightarrow> string option) \<Rightarrow> string \<Rightarrow> paymentInfo" where
  "extractEthereumInfo param s =
     (case searchFrom matchEthereum s of
        Some (address, q) \<Rightarrow>
          EthereumInfo address (param (queryText q) ''value'') (param (queryText q) ''gas'')
            (param (queryText q) ''gasPrice'') s
      | None \<Rightarrow> RawInfo ''ethereum'' s)"

text \<open>\<open>paymentString.split('?')[1] || ''\<close>.\<close>

definition afterFirstQuestionMark :: "string \<Rightarrow> string" where
  "afterFirstQuestionMark s =
     (let parts = splitOn (CHR ''?'') s in if length parts < 2 then [] else parts ! 1)"

definition extractUPIInfo :: "(string \<Rightarrow> string \<Rightarrow> string option) \<Rightarrow> string \<Rightarrow> paymentInfo" where
  "extractUPIInfo param s =
     (let q = afterFirstQuestionMark s
      in UPIInfo (param q ''pa'') (param q ''pn'') (param q ''am'') (param q ''cu'')
           (param q ''tid'') (param q ''tr'') (param q ''tn'') s)"

text \<open>
  \<open>iban:([A-Z]{2}[0-9]{2}[A-Z0-9]{4}[0-9]{7}(?:[A-Z0-9]?){0,16})(?:\?(.*))?\<close> at the start of
  a string.
\<close>

definition matchIbanUri :: "string \<Rightarrow> (string \<times> string option) option" where
  "matchIbanUri s =
     (case stripPrefix ''iban:'' s of
        None \<Rightarrow> None
      | Some r \<Rightarrow>
         (case matchIban r of
            None \<Rightarrow> None
          | Some (iban, rest) \<Rightarrow> Some (iban, matchQuery rest)))"

definition extractIBANInfo :: "(string \<Rightarrow> string \<Rightarrow> string option) \<Rightarrow> string \<Rightarrow> paymentInfo" where
  "extractIBANInfo param s =
     (case searchFrom matchIbanUri s of
        Some (iban, q) \<Rightarrow>
          IBANInfo iban (param (queryText q) ''beneficiary'') (param (queryText q) ''amount'')
            (param (queryText q) ''currency'') (param (queryText q) ''reference'') s
      | None \<Rightarrow> RawInfo ''iban'' s)"

definition extractPaymentInfo :: "(string \<Rightarrow> string \<Rightarrow> string option) \<Rightarrow> string \<Rightarrow> paymentInfo" where
  "extractPaymentInfo param s =
     (let t = getPaymentTypeFromString s
      in if t = ''paypal'' then extractPayPalInfo s
         else if t = ''bitcoin'' then extractBitcoinInfo param s
         else if t = ''ethereum'' then extractEthereumInfo param s
         else if t = ''upi'' then extractUPIInfo param s
         else if t = ''iban'' then extractIBANInfo param s
         else if t = ''url'' then URLInfo s
         else RawInfo ''unknown'' s)"

text \<open>
  \<open>validateIBANString\<close>, the generator's own format check of an IBAN payment string:
  \<open>/^iban:[A-Z]{2}[0-9]{2}[A-Z0-9]{4}[0-9]{7}([A-Z0-9]?){0,16}(\?.*)?$/\<close>.
\<close>

definition validateIBANString :: "string \<Rightarrow> unit result" where
  "validateIBANString s =
     (if (case stripPrefix ''iban:'' s of
            None \<Rightarrow> False
          | Some r \<Rightarrow>
             (case matchIban r of
                None \<Rightarrow> False
              | Some (_, rest) \<Rightarrow>
                 rest = [] \<or> (startsWith rest ''?'' \<and> list_all notLineEnd (drop 1 rest))))
      then Ok ()
      else Fail ''Invalid IBAN string format'')"


definition printedIban :: paymentData where
  "printedIban =
     \<lparr>paymentType = ''iban'', paypalUsername = [], paypalAmount = [], cryptoAddress = [],
      cryptoAmount = [], upiId = [], upiName = [], upiAmount = [],
      ibanCode = ''DE89 3704 0044 0532 0130 00'', ibanName = ''Jane Doe'', ibanAmount = [],
      paymentUrl = []\<rparr>"

section \<open>Generators that catch their errors (wifi-qr-generator.js, sms-qr-generator.js)\<close>




text \<open>The message data of the SMS generator; a message that was not given is empty.\<close>

record smsData =
  platform :: string
  phone :: string
  message :: string






section \<open>The event generator (the EventQRGenerator class, generateEventQR)\<close>




section \<open>Decoding a mailto URL (the EmailQRGenerator class)\<close>






section \<open>Proofs: IBAN checksum\<close>

lemma coprime_97_10: "coprime (97::int) 10"
proof -
  have "gcd (97::int) 10 = gcd 10 (97 mod 10)" by (rule gcd_red_int)
  also have "\<dots> = gcd 10 7" by simp
  also have "\<dots> = gcd 7 (10 mod 7)" by (rule gcd_red_int)
  also have "\<dots> = gcd 7 3" by simp
  also have "\<dots> = gcd 3 (7 mod 3)" by (rule gcd_red_int)
  also have "\<dots> = 1" by simp
  finally show ?thesis by (simp add: coprime_iff_gcd_eq_1)
qed

lemma dvd_97_shift:
  fixes a b :: int
  assumes "97 dvd (a - b) * 10 ^ k" "\<bar>a - b\<bar> < 97"
  shows "a = b"
proof -
  have "coprime (97::int) (10 ^ k)" using coprime_97_10 by simp
  with assms(1) have d: "97 dvd (a - b)"
    by (simp add: coprime_dvd_mult_left_iff)
  show ?thesis
  proof (rule ccontr)
    assume "a \<noteq> b"
    then have "a - b \<noteq> 0" by simp
    from dvd_imp_le_int[OF this d] have "97 \<le> \<bar>a - b\<bar>" by simp
    with assms(2) show False by simp
  qed
qed

lemma toStringNat_digits: "\<forall>c\<in>set (toStringNat n). isDigit c"
proof (induction n rule: toStringNat.induct)
  case (1 n)
  show ?case
  proof (cases "n < 10")
    case True
    then show ?thesis by (subst toStringNat.simps) (simp add: isDigit_def code_def)
  next
    case False
    have "n mod 10 < 10" by simp
    then have "isDigit (char_of (48 + n mod 10))"
      by (simp add: isDigit_def code_def)
    with False 1 show ?thesis by (subst toStringNat.simps) simp
  qed
qed

lemma numericString_digits:
  "\<forall>c\<in>set s. isDigit c \<or> isUpper c \<Longrightarrow> \<forall>c\<in>set (numericString s). isDigit c"
  using toStringNat_digits by (auto simp: numericString_def)

lemma numericString_append: "numericString (xs @ ys) = numericString xs @ numericString ys"
  by (simp add: numericString_def)

lemma digit_not_upper: "isDigit c \<Longrightarrow> \<not> isUpper c"
  by (simp add: isDigit_def isUpper_def)

lemma numericString_digit: "isDigit c \<Longrightarrow> numericString (c # ys) = c # numericString ys"
  by (simp add: numericString_def digit_not_upper)

lemma decimalFrom_shift:
  "foldl (\<lambda>a c. a * 10 + (code c - 48)) a ys = a * 10 ^ length ys + decimalValue ys"
  unfolding decimalValue_def
proof (induction ys arbitrary: a rule: rev_induct)
  case Nil
  then show ?case by simp
next
  case (snoc x xs)
  show ?case by (simp add: snoc.IH[of a] algebra_simps)
qed

lemma decimalValue_append:
  "decimalValue (xs @ ys) = decimalValue xs * 10 ^ length ys + decimalValue ys"
  using decimalFrom_shift[of "decimalValue xs" ys] by (simp add: decimalValue_def)

lemma decimalValue_Cons:
  "decimalValue (c # ys) = (code c - 48) * 10 ^ length ys + decimalValue ys"
  using decimalFrom_shift[of "code c - 48" ys] by (simp add: decimalValue_def)

lemma remainderLoop_digits:
  "\<forall>c\<in>set s. isDigit c \<Longrightarrow>
   remainderLoop (Some (a mod 97)) s = Some (foldl (\<lambda>a c. a * 10 + (code c - 48)) a s mod 97)"
proof (induction s arbitrary: a)
  case Nil
  then show ?case by simp
next
  case (Cons c cs)
  have "(a mod 97 * 10 + (code c - 48)) mod 97 = (a * 10 + (code c - 48)) mod 97"
    by (metis mod_add_left_eq mod_mult_left_eq)
  with Cons show ?case by (simp add: parseIntChar_def)
qed

lemma validate_refines:
  assumes "\<forall>c\<in>set iban. isDigit c \<or> isUpper c"
  shows "validateIBANChecksum iban = spec_iban_valid iban"
proof -
  have "\<forall>c\<in>set (rearranged iban). isDigit c \<or> isUpper c"
    using assms by (auto simp: rearranged_def dest: in_set_dropD in_set_takeD)
  then have "\<forall>c\<in>set (numericString (rearranged iban)). isDigit c"
    by (rule numericString_digits)
  from remainderLoop_digits[OF this, of 0] show ?thesis
    by (simp add: validateIBANChecksum_def spec_iban_valid_def decimalValue_def)
qed

lemma rearranged_update:
  assumes "i < length s"
  shows "\<exists>j < length (rearranged s). rearranged (s[i := d]) = (rearranged s)[j := d] \<and> rearranged s ! j = s ! i"
proof (cases "i < 4")
  case True
  let ?j = "length s - 4 + i"
  have "rearranged (s[i := d]) = (rearranged s)[?j := d]"
    using True by (simp add: rearranged_def list_update_append take_update_swap drop_update_cancel)
  moreover have "rearranged s ! ?j = s ! i"
    using True assms by (simp add: rearranged_def nth_append)
  moreover have "?j < length (rearranged s)"
    using True assms by (simp add: rearranged_def)
  ultimately show ?thesis by blast
next
  case False
  let ?j = "i - 4"
  have lt: "i - 4 < length s - 4" using False assms by arith
  have "rearranged (s[i := d]) = (rearranged s)[?j := d]"
    using False assms lt by (simp add: rearranged_def list_update_append drop_update_swap take_update_cancel)
  moreover have "rearranged s ! ?j = s ! i"
    using False assms lt by (simp add: rearranged_def nth_append)
  moreover have "?j < length (rearranged s)"
    using False assms lt by (simp add: rearranged_def)
  ultimately show ?thesis by blast
qed

lemma digit_value_inj:
  "isDigit c \<Longrightarrow> isDigit d \<Longrightarrow> code c - 48 = code d - 48 \<Longrightarrow> c = d"
proof -
  assume a: "isDigit c" "isDigit d" "code c - 48 = code d - 48"
  then have "code c = code d" unfolding isDigit_def by linarith
  then show "c = d" by (simp add: code_def)
qed

lemma mutated_value:
  assumes c: "isDigit c" and d: "isDigit d" and ne: "d \<noteq> c"
    and v: "decimalValue (numericString (xs @ c # ys)) mod 97 = 1"
  shows "decimalValue (numericString (xs @ d # ys)) mod 97 \<noteq> 1"
proof
  assume w: "decimalValue (numericString (xs @ d # ys)) mod 97 = 1"
  define vc where "vc = code c - 48"
  define vd where "vd = code d - 48"
  let ?X = "decimalValue (numericString xs)"
  let ?Y = "decimalValue (numericString ys)"
  let ?k = "length (numericString ys)"
  let ?p = "10 ^ Suc ?k :: nat"
  have ec: "decimalValue (numericString (xs @ c # ys)) = ?X * ?p + vc * 10 ^ ?k + ?Y"
    using c unfolding vc_def by (simp add: numericString_append numericString_digit decimalValue_append decimalValue_Cons algebra_simps)
  have ed: "decimalValue (numericString (xs @ d # ys)) = ?X * ?p + vd * 10 ^ ?k + ?Y"
    using d unfolding vd_def by (simp add: numericString_append numericString_digit decimalValue_append decimalValue_Cons algebra_simps)
  have "int (decimalValue (numericString (xs @ c # ys))) mod 97 = int (decimalValue (numericString (xs @ d # ys))) mod 97"
    using v w by (metis of_nat_mod of_nat_numeral)
  then have "97 dvd int (decimalValue (numericString (xs @ c # ys))) - int (decimalValue (numericString (xs @ d # ys)))"
    by (simp add: mod_eq_dvd_iff)
  moreover have "int (decimalValue (numericString (xs @ c # ys))) - int (decimalValue (numericString (xs @ d # ys)))
      = (int vc - int vd) * 10 ^ ?k"
    unfolding ec ed by (simp add: algebra_simps)
  ultimately have dv: "97 dvd (int vc - int vd) * 10 ^ ?k" by simp
  have "vc < 10" "vd < 10"
    using c d by (auto simp: isDigit_def vc_def vd_def)
  then have "\<bar>int vc - int vd\<bar> < 97" by linarith
  from dvd_97_shift[OF dv this] have "code c - 48 = code d - 48" by (simp add: vc_def vd_def)
  with digit_value_inj[OF c d] ne show False by simp
qed

lemma single_digit_mutation:
  assumes al: "\<forall>c\<in>set s. isDigit c \<or> isUpper c"
    and ok: "validateIBANChecksum s"
    and i: "i < length s" and c: "isDigit (s ! i)" and d: "isDigit d" and ne: "d \<noteq> s ! i"
  shows "\<not> validateIBANChecksum (s[i := d])"
proof -
  obtain j where j: "j < length (rearranged s)"
      "rearranged (s[i := d]) = (rearranged s)[j := d]" "rearranged s ! j = s ! i"
    using rearranged_update[OF i] by blast
  let ?r = "rearranged s"
  have r: "?r = take j ?r @ (s ! i) # drop (Suc j) ?r"
    using j(1,3) id_take_nth_drop by metis
  have u: "?r[j := d] = take j ?r @ d # drop (Suc j) ?r"
    using j(1) by (simp add: upd_conv_take_nth_drop)
  have "decimalValue (numericString ?r) mod 97 = 1"
    using ok validate_refines[OF al] by (simp add: spec_iban_valid_def)
  then have "decimalValue (numericString (take j ?r @ (s ! i) # drop (Suc j) ?r)) mod 97 = 1"
    using r by simp
  from mutated_value[OF c d ne this]
  have m: "\<not> spec_iban_valid (s[i := d])"
    by (simp add: spec_iban_valid_def j(2) u)
  have "\<forall>c\<in>set (s[i := d]). isDigit c \<or> isUpper c"
    using al d by (metis insert_iff set_update_subset_insert subsetD)
  from validate_refines[OF this] m show ?thesis by simp
qed

text \<open>
  Claim C2. \<open>validateIBANChecksum\<close> moves the first four characters to the end, replaces
  each letter \<open>A\<close>..\<open>Z\<close> by the decimal digits of its character code minus 55 (\<open>A\<close> gives
  10, \<open>Z\<close> gives 35), and on every string of digits and capital letters its running
  remainder agrees with reading the whole concatenation as one decimal number and testing
  that number modulo 97 against 1. The IBAN DE89370400440532013000 validates, and replacing
  any one of its digits by a different digit gives a string that does not validate.
\<close>

theorem iban_checksum_mod97:
  "(\<forall>iban. (\<forall>c\<in>set iban. isDigit c \<or> isUpper c) \<longrightarrow>
      validateIBANChecksum iban = spec_iban_valid iban)
   \<and> rearranged ''DE89370400440532013000'' = ''370400440532013000DE89''
   \<and> numericString ''AZ'' = ''1035''
   \<and> validateIBANChecksum ''DE89370400440532013000''
   \<and> (\<forall>i d. i < length ''DE89370400440532013000''
          \<and> isDigit (''DE89370400440532013000'' ! i) \<and> isDigit d
          \<and> d \<noteq> ''DE89370400440532013000'' ! i \<longrightarrow>
        \<not> validateIBANChecksum (''DE89370400440532013000''[i := d]))"
proof -
  let ?s = "''DE89370400440532013000''"
  have v: "validateIBANChecksum ?s"
    by (simp add: validateIBANChecksum_def rearranged_def numericString_def isUpper_def
        code_def toStringNat.simps parseIntChar_def isDigit_def)
  have al: "\<forall>c\<in>set ?s. isDigit c \<or> isUpper c"
    by (simp add: isDigit_def isUpper_def code_def)
  have r: "rearranged ?s = ''370400440532013000DE89''"
    by (simp add: rearranged_def)
  have n: "numericString ''AZ'' = ''1035''"
    by code_simp
  have m: "\<forall>i d. i < length ?s \<and> isDigit (?s ! i) \<and> isDigit d \<and> d \<noteq> ?s ! i \<longrightarrow>
        \<not> validateIBANChecksum (?s[i := d])"
    using single_digit_mutation[OF al v] by blast
  from validate_refines r n v m show ?thesis by blast
qed

theorem iban_checksum_mod97_witness:
  "\<not> validateIBANChecksum ''DE89470400440532013000''
   \<and> validateIBANChecksum ''GB82WEST12345698765432'' = spec_iban_valid ''GB82WEST12345698765432''"
proof -
  have a: "\<forall>c\<in>set ''GB82WEST12345698765432''. isDigit c \<or> isUpper c"
    by (simp add: isDigit_def isUpper_def code_def)
  have b: "4 < length ''DE89370400440532013000''
      \<and> isDigit (''DE89370400440532013000'' ! 4) \<and> isDigit (CHR ''4'')
      \<and> CHR ''4'' \<noteq> ''DE89370400440532013000'' ! 4"
    by (simp add: isDigit_def code_def)
  have c: "''DE89370400440532013000''[4 := CHR ''4''] = ''DE89470400440532013000''"
    by simp
  from iban_checksum_mod97 have
    "validateIBANChecksum ''GB82WEST12345698765432'' = spec_iban_valid ''GB82WEST12345698765432''"
    using a by blast
  moreover from iban_checksum_mod97 b
  have "\<not> validateIBANChecksum (''DE89370400440532013000''[4 := CHR ''4''])"
    by blast
  ultimately show ?thesis using c by simp
qed

section \<open>Proofs: Wi-Fi payload\<close>

lemma replaceChar_Nil: "replaceChar c r [] = []"
  by (simp add: replaceChar_def)

lemma replaceChar_Cons:
  "replaceChar c r (x # xs) = (if x = c then r else [x]) @ replaceChar c r xs"
  by (simp add: replaceChar_def)

lemma replaceChar_append:
  "replaceChar c r (xs @ ys) = replaceChar c r xs @ replaceChar c r ys"
  by (simp add: replaceChar_def)

lemma special_chars_distinct:
  "BSL \<noteq> CHR '';''" "BSL \<noteq> CHR '',''" "BSL \<noteq> DQ" "CHR '';'' \<noteq> DQ" "CHR '','' \<noteq> DQ"
  by (simp_all add: BSL_def DQ_def)

lemma four_passes_one_pass:
  "replaceChar DQ [BSL, DQ]
     (replaceChar (CHR '','') [BSL, CHR '','']
       (replaceChar (CHR '';'') [BSL, CHR '';'']
         (replaceChar BSL [BSL, BSL] s))) = spec_escape s"
proof (induction s)
  case Nil
  show ?case by (simp add: replaceChar_Nil spec_escape_def)
next
  case (Cons x xs)
  have se: "spec_escape (x # xs) =
      (if x = BSL \<or> x = CHR '';'' \<or> x = CHR '','' \<or> x = DQ then [BSL, x] else [x]) @ spec_escape xs"
    by (simp add: spec_escape_def)
  show ?case
    unfolding se Cons.IH[symmetric]
    using special_chars_distinct
    by (auto simp: replaceChar_Cons replaceChar_append replaceChar_Nil)
qed

lemma escapeWiFiString_spec: "escapeWiFiString s = spec_escape s"
proof (cases "s = []")
  case True
  then show ?thesis by (simp add: escapeWiFiString_def spec_escape_def)
next
  case False
  then show ?thesis by (simp add: escapeWiFiString_def four_passes_one_pass)
qed

lemma spec_escape_empty: "spec_escape s = [] \<longleftrightarrow> s = []"
  by (cases s) (auto simp: spec_escape_def)

text \<open>
  Claim C1. For every input that \<open>validateWiFiData\<close> accepts, \<open>formatWiFiString\<close> returns
  exactly \<open>WIFI:T:<sec>;S:<ssid>;P:<pw>;H:<bool>;;\<close>: the security type is one of the four
  known ones and WPA3 is written as WPA, the \<open>P:\<close> field is left out for \<open>nopass\<close> and present
  otherwise, \<open>H\<close> is \<open>true\<close> or \<open>false\<close>, and SSID and password go through the escaper,
  whose four passes (backslash first) equal one pass that puts a backslash before each
  backslash, semicolon, comma and double quote. The network Home with password password123
  encodes to \<open>WIFI:T:WPA;S:Home;P:password123;H:false;;\<close>.
\<close>

theorem wifi_encode_grammar:
  "(\<forall>w. validateWiFiData w = Ok () \<longrightarrow>
      security w \<in> {''WPA'', ''WPA3'', ''WEP'', ''nopass''}
      \<and> (security w \<noteq> ''nopass'' \<longrightarrow> (\<exists>p. password w = Some p \<and> p \<noteq> []))
      \<and> formatWiFiString w =
          ''WIFI:T:'' @ (if security w = ''WPA3'' then ''WPA'' else security w)
          @ '';S:'' @ spec_escape (ssid w) @ '';''
          @ (if security w = ''nopass'' then []
             else (case password w of None \<Rightarrow> [] | Some p \<Rightarrow> ''P:'' @ spec_escape p @ '';''))
          @ ''H:'' @ (if hidden w = Some True then ''true'' else ''false'') @ '';;'')
   \<and> (\<forall>s. escapeWiFiString s = spec_escape s)
   \<and> formatWiFiString \<lparr>ssid = ''Home'', password = Some ''password123'', security = ''WPA'',
         hidden = Some False\<rparr> = ''WIFI:T:WPA;S:Home;P:password123;H:false;;''"
proof -
  have ex: "formatWiFiString \<lparr>ssid = ''Home'', password = Some ''password123'', security = ''WPA'',
         hidden = Some False\<rparr> = ''WIFI:T:WPA;S:Home;P:password123;H:false;;''"
    by (simp add: formatWiFiString_def escapeWiFiString_spec spec_escape_def securityMap_def
        BSL_def DQ_def)
  have g: "security w \<in> {''WPA'', ''WPA3'', ''WEP'', ''nopass''}
      \<and> (security w \<noteq> ''nopass'' \<longrightarrow> (\<exists>p. password w = Some p \<and> p \<noteq> []))
      \<and> formatWiFiString w =
          ''WIFI:T:'' @ (if security w = ''WPA3'' then ''WPA'' else security w)
          @ '';S:'' @ spec_escape (ssid w) @ '';''
          @ (if security w = ''nopass'' then []
             else (case password w of None \<Rightarrow> [] | Some p \<Rightarrow> ''P:'' @ spec_escape p @ '';''))
          @ ''H:'' @ (if hidden w = Some True then ''true'' else ''false'') @ '';;''"
    if v: "validateWiFiData w = Ok ()" for w
  proof -
    from v have sec: "security w \<in> {''WPA'', ''WPA3'', ''WEP'', ''nopass''}"
      by (simp add: validateWiFiData_def split: if_splits)
    from v have pw: "security w \<noteq> ''nopass'' \<longrightarrow> (\<exists>p. password w = Some p \<and> p \<noteq> [])"
      by (auto simp: validateWiFiData_def split: if_splits option.splits)
    have f: "formatWiFiString w =
          ''WIFI:T:'' @ (if security w = ''WPA3'' then ''WPA'' else security w)
          @ '';S:'' @ spec_escape (ssid w) @ '';''
          @ (if security w = ''nopass'' then []
             else (case password w of None \<Rightarrow> [] | Some p \<Rightarrow> ''P:'' @ spec_escape p @ '';''))
          @ ''H:'' @ (if hidden w = Some True then ''true'' else ''false'') @ '';;''"
    proof (cases "security w = ''nopass''")
      case True
      then show ?thesis
        by (simp add: formatWiFiString_def securityMap_def escapeWiFiString_spec Let_def)
    next
      case False
      with pw obtain p where p: "password w = Some p" "p \<noteq> []" by blast
      from sec False have "security w = ''WPA'' \<or> security w = ''WPA3'' \<or> security w = ''WEP''"
        by simp
      then show ?thesis using p
        by (auto simp: formatWiFiString_def securityMap_def escapeWiFiString_spec Let_def
            spec_escape_empty)
    qed
    from sec pw f show ?thesis by blast
  qed
  from g escapeWiFiString_spec ex show ?thesis by blast
qed

theorem wifi_encode_grammar_witness:
  "validateWiFiData \<lparr>ssid = ''a;b'', password = Some ''pass,word'', security = ''WPA3'',
       hidden = Some True\<rparr> = Ok ()
   \<and> formatWiFiString \<lparr>ssid = ''a;b'', password = Some ''pass,word'', security = ''WPA3'',
       hidden = Some True\<rparr>
     = ''WIFI:T:WPA;S:a'' @ [BSL] @ '';b;P:pass'' @ [BSL] @ '',word;H:true;;''"
proof -
  let ?w = "\<lparr>ssid = ''a;b'', password = Some ''pass,word'', security = ''WPA3'',
       hidden = Some True\<rparr>"
  have v: "validateWiFiData ?w = Ok ()"
    by (simp add: validateWiFiData_def trim_def trimEnd_def trimStart_def isSpace_def code_def)
  from wifi_encode_grammar v have "formatWiFiString ?w =
          ''WIFI:T:'' @ (if security ?w = ''WPA3'' then ''WPA'' else security ?w)
          @ '';S:'' @ spec_escape (ssid ?w) @ '';''
          @ (if security ?w = ''nopass'' then []
             else (case password ?w of None \<Rightarrow> [] | Some p \<Rightarrow> ''P:'' @ spec_escape p @ '';''))
          @ ''H:'' @ (if hidden ?w = Some True then ''true'' else ''false'') @ '';;''"
    by blast
  then show ?thesis using v by (simp add: spec_escape_def BSL_def DQ_def)
qed

section \<open>Proofs: phone numbers and messages\<close>

lemma cleanPhoneOf_idem: "cleanPhoneOf (cleanPhoneOf x) = cleanPhoneOf x"
  by (simp add: cleanPhoneOf_def)

lemma cleanPhoneOf_chars: "\<forall>c\<in>set (cleanPhoneOf x). isDigit c \<or> c = CHR ''+''"
  by (simp add: cleanPhoneOf_def)

lemma cleanPhoneOf_id: "\<forall>c\<in>set y. isDigit c \<or> c = CHR ''+'' \<Longrightarrow> cleanPhoneOf y = y"
  by (simp add: cleanPhoneOf_def filter_id_conv)

lemma one_is_digit: "isDigit (CHR ''1'')"
  by (simp add: isDigit_def code_def)

lemma formatPhoneNumber_cases:
  "formatPhoneNumber x = [] \<or>
   (startsWith (formatPhoneNumber x) ''+'' \<and> (\<forall>c\<in>set (formatPhoneNumber x). isDigit c \<or> c = CHR ''+''))"
  using cleanPhoneOf_chars[of x] one_is_digit
  by (auto simp: formatPhoneNumber_def Let_def startsWith_def)

lemma formatPhoneNumber_fixed:
  assumes "startsWith y ''+''" "\<forall>c\<in>set y. isDigit c \<or> c = CHR ''+''"
  shows "formatPhoneNumber y = y"
proof -
  from assms(1) have "y \<noteq> []" by (auto simp: startsWith_def)
  with assms show ?thesis
    by (simp add: formatPhoneNumber_def Let_def cleanPhoneOf_id)
qed

lemma formatPhoneNumber_idem: "formatPhoneNumber (formatPhoneNumber x) = formatPhoneNumber x"
  using formatPhoneNumber_cases[of x]
proof
  assume "formatPhoneNumber x = []"
  then show ?thesis by (simp add: formatPhoneNumber_def)
next
  assume "startsWith (formatPhoneNumber x) ''+'' \<and> (\<forall>c\<in>set (formatPhoneNumber x). isDigit c \<or> c = CHR ''+'')"
  then show ?thesis using formatPhoneNumber_fixed by blast
qed

lemma plus_not_digit: "\<not> isDigit (CHR ''+'')"
  by (simp add: isDigit_def code_def)

lemma allDigits_no_plus: "list_all isDigit s \<Longrightarrow> \<forall>c\<in>set s. isDigit c \<and> c \<noteq> CHR ''+''"
  using plus_not_digit by (auto simp: list_all_iff)

lemma validated_phone_shape:
  assumes "validatePhoneNumber x = Ok ()"
  shows "\<exists>ds. formatPhoneNumber x = CHR ''+'' # ds \<and> list_all isDigit ds"
proof -
  from assms have ne: "x \<noteq> []" by (auto simp: validatePhoneNumber_def)
  show ?thesis
  proof (cases "startsWith (cleanPhoneOf x) ''+''")
    case True
    then obtain ds where c: "cleanPhoneOf x = CHR ''+'' # ds"
      by (cases "cleanPhoneOf x") (auto simp: startsWith_def)
    with assms ne True have "list_all isDigit ds"
      by (auto simp: validatePhoneNumber_def Let_def allDigits_def split: if_splits)
    with c ne True show ?thesis by (simp add: formatPhoneNumber_def Let_def)
  next
    case False
    with assms ne have "list_all isDigit (cleanPhoneOf x)"
      by (auto simp: validatePhoneNumber_def Let_def allDigits_def split: if_splits)
    with ne False one_is_digit show ?thesis
      by (auto simp: formatPhoneNumber_def Let_def)
  qed
qed

lemma includesStr_single: "includesStr s [c] \<longleftrightarrow> c \<in> set s"
  by (induction s) (auto simp: startsWith_def)

lemma length_splitOn: "length (splitOn c s) = Suc (length (filter (\<lambda>x. x = c) s))"
  by (induction s) (auto split: list.splits)

lemma many_lines_has_LF: "length (splitOn c s) > 1 \<Longrightarrow> c \<in> set s"
  by (auto simp: length_splitOn filter_empty_conv)

text \<open>
  Claim C7, as amended. \<open>formatPhoneNumber\<close> keeps the digits and every plus sign of its
  input, wherever the plus stands, and drops every other character. If what is left does not
  start with a plus, a ten-character remainder gets \<open>+1\<close> in front and any other remainder
  (an eleven-digit number starting with 1 included) gets \<open>+\<close> in front; a remainder that starts
  with a plus is returned as it is. For a phone number that \<open>validatePhoneNumber\<close> accepts the
  result is a plus followed by digits only. The empty string is the one input that gets no
  plus: it is returned as the empty string. \<open>5551234567\<close> becomes \<open>+15551234567\<close>, and
  normalizing a normalized number returns it unchanged, for every input.
\<close>

theorem phone_normalization:
  "(\<forall>x. cleanPhoneOf x = filter (\<lambda>c. isDigit c \<or> c = CHR ''+'') x)
   \<and> (\<forall>x. x \<noteq> [] \<and> \<not> startsWith (cleanPhoneOf x) ''+'' \<and> length (cleanPhoneOf x) = 10 \<longrightarrow>
          formatPhoneNumber x = ''+1'' @ cleanPhoneOf x)
   \<and> (\<forall>x. x \<noteq> [] \<and> \<not> startsWith (cleanPhoneOf x) ''+'' \<and> length (cleanPhoneOf x) \<noteq> 10 \<longrightarrow>
          formatPhoneNumber x = ''+'' @ cleanPhoneOf x)
   \<and> (\<forall>x. startsWith (cleanPhoneOf x) ''+'' \<longrightarrow> formatPhoneNumber x = cleanPhoneOf x)
   \<and> (\<forall>x. validatePhoneNumber x = Ok () \<longrightarrow>
          (\<exists>ds. formatPhoneNumber x = CHR ''+'' # ds \<and> list_all isDigit ds))
   \<and> formatPhoneNumber [] = []
   \<and> formatPhoneNumber ''5551234567'' = ''+15551234567''
   \<and> (\<forall>x. formatPhoneNumber (formatPhoneNumber x) = formatPhoneNumber x)"
proof -
  have a: "\<forall>x. cleanPhoneOf x = filter (\<lambda>c. isDigit c \<or> c = CHR ''+'') x"
    by (simp add: cleanPhoneOf_def)
  have b: "\<forall>x. x \<noteq> [] \<and> \<not> startsWith (cleanPhoneOf x) ''+'' \<and> length (cleanPhoneOf x) = 10 \<longrightarrow>
          formatPhoneNumber x = ''+1'' @ cleanPhoneOf x"
    by (simp add: formatPhoneNumber_def Let_def)
  have c: "\<forall>x. x \<noteq> [] \<and> \<not> startsWith (cleanPhoneOf x) ''+'' \<and> length (cleanPhoneOf x) \<noteq> 10 \<longrightarrow>
          formatPhoneNumber x = ''+'' @ cleanPhoneOf x"
    by (simp add: formatPhoneNumber_def Let_def)
  have d: "\<forall>x. startsWith (cleanPhoneOf x) ''+'' \<longrightarrow> formatPhoneNumber x = cleanPhoneOf x"
    by (auto simp: formatPhoneNumber_def Let_def cleanPhoneOf_def startsWith_def)
  have e: "formatPhoneNumber ''5551234567'' = ''+15551234567''"
    by (simp add: formatPhoneNumber_def Let_def cleanPhoneOf_def startsWith_def isDigit_def code_def)
  have f: "formatPhoneNumber [] = []"
    by (simp add: formatPhoneNumber_def)
  from a b c d e f validated_phone_shape formatPhoneNumber_idem show ?thesis by blast
qed

theorem phone_normalization_witness:
  "validatePhoneNumber ''(555) 123-4567'' = Ok ()
   \<and> formatPhoneNumber ''(555) 123-4567'' = ''+15551234567''
   \<and> formatPhoneNumber ''+44 20 7946 0958'' = ''+442079460958''"
proof -
  have c1: "cleanPhoneOf ''(555) 123-4567'' = ''5551234567''"
    by (simp add: cleanPhoneOf_def isDigit_def code_def)
  have c2: "cleanPhoneOf ''+44 20 7946 0958'' = ''+442079460958''"
    by (simp add: cleanPhoneOf_def isDigit_def code_def)
  have v: "validatePhoneNumber ''(555) 123-4567'' = Ok ()"
    by (simp add: validatePhoneNumber_def Let_def c1 startsWith_def allDigits_def isDigit_def code_def)
  have h1: "''(555) 123-4567'' \<noteq> [] \<and> \<not> startsWith (cleanPhoneOf ''(555) 123-4567'') ''+''
      \<and> length (cleanPhoneOf ''(555) 123-4567'') = 10"
    by (simp add: c1 startsWith_def)
  have h2: "startsWith (cleanPhoneOf ''+44 20 7946 0958'') ''+''"
    by (simp add: c2 startsWith_def)
  from phone_normalization h1
  have "formatPhoneNumber ''(555) 123-4567'' = ''+1'' @ cleanPhoneOf ''(555) 123-4567''"
    by blast
  moreover from phone_normalization h2
  have "formatPhoneNumber ''+44 20 7946 0958'' = cleanPhoneOf ''+44 20 7946 0958''"
    by blast
  ultimately show ?thesis using v c1 c2 by simp
qed

text \<open>
  The claim as it was written says that only a leading plus survives. A plus inside the
  number survives too.
\<close>

theorem phone_inner_plus_kept:
  "formatPhoneNumber ''555+1234'' = ''+555+1234''"
  by (simp add: formatPhoneNumber_def Let_def cleanPhoneOf_def startsWith_def isDigit_def code_def)

text \<open>
  Claim C10, as amended. \<open>validateMessage\<close> checks the length first: a message of more than
  160 characters fails with the length error whatever its line count. A message of at most
  160 characters that splits into more than five lines at its line feeds (that is, holds at
  least five line feeds) fails with the error \<open>Message has too many line breaks\<close>.
\<close>

theorem sms_line_break_limit:
  "(\<forall>v. length v \<le> 160 \<and> length (splitOn LF v) > 5 \<longrightarrow>
        validateMessage v = Fail ''Message has too many line breaks'')
   \<and> (\<forall>v. length v > 160 \<longrightarrow> validateMessage v = Fail ''Message cannot exceed 160 characters'')
   \<and> (\<forall>v. length (splitOn LF v) = Suc (length (filter (\<lambda>c. c = LF) v)))"
proof -
  have a: "validateMessage v = Fail ''Message has too many line breaks''"
    if h: "length v \<le> 160 \<and> length (splitOn LF v) > 5" for v
  proof -
    from h have "LF \<in> set v" using many_lines_has_LF[of LF v] by simp
    then have "includesStr v [LF]" "v \<noteq> []" by (auto simp: includesStr_single)
    with h show ?thesis by (simp add: validateMessage_def)
  qed
  have b: "validateMessage v = Fail ''Message cannot exceed 160 characters''"
    if "length v > 160" for v
    using that by (auto simp: validateMessage_def)
  from a b length_splitOn show ?thesis by blast
qed

theorem sms_line_break_limit_witness:
  "validateMessage [CHR ''a'', LF, CHR ''b'', LF, CHR ''c'', LF, CHR ''d'', LF, CHR ''e'', LF, CHR ''f'']
     = Fail ''Message has too many line breaks''"
proof -
  let ?v = "[CHR ''a'', LF, CHR ''b'', LF, CHR ''c'', LF, CHR ''d'', LF, CHR ''e'', LF, CHR ''f'']"
  have "length ?v \<le> 160 \<and> length (splitOn LF ?v) > 5"
    by (simp add: LF_def)
  with sms_line_break_limit show ?thesis by blast
qed

text \<open>
  The claim as it was written promises the line-break error for every message of more than
  five lines. A message of 161 characters in six lines fails with the length error instead.
\<close>

theorem sms_long_message_length_error:
  "length (replicate 156 (CHR ''a'') @ replicate 5 LF) = 161
   \<and> includesStr (replicate 156 (CHR ''a'') @ replicate 5 LF) [LF]
   \<and> length (splitOn LF (replicate 156 (CHR ''a'') @ replicate 5 LF)) = 6
   \<and> validateMessage (replicate 156 (CHR ''a'') @ replicate 5 LF)
       = Fail ''Message cannot exceed 160 characters''"
proof -
  let ?v = "replicate 156 (CHR ''a'') @ replicate 5 LF"
  have l: "length ?v = 161" by simp
  have i: "includesStr ?v [LF]" by (simp add: includesStr_single)
  have "filter (\<lambda>c. c = LF) ?v = replicate 5 LF"
    by (simp add: LF_def filter_replicate)
  then have s: "length (splitOn LF ?v) = 6" by (simp add: length_splitOn)
  have "?v \<noteq> []" by simp
  then have v: "validateMessage ?v = Fail ''Message cannot exceed 160 characters''"
    unfolding validateMessage_def using l by simp
  from l i s v show ?thesis by blast
qed

section \<open>Proofs: plain text\<close>

lemma splitOn_nonempty: "splitOn c s \<noteq> []"
  by (induction s) (auto split: list.splits)

lemma join_split: "joinWith c (splitOn c s) = s"
proof (induction s)
  case Nil
  show ?case by simp
next
  case (Cons x xs)
  obtain l ls where e: "splitOn c xs = l # ls"
    using splitOn_nonempty[of c xs] by (cases "splitOn c xs") auto
  with Cons show ?case
    by (cases ls) auto
qed

lemma set_joinWith: "set (joinWith c ls) \<subseteq> \<Union>(set ` set ls) \<union> {c}"
  by (induction c ls rule: joinWith.induct) auto

lemma set_splitOn: "\<Union>(set ` set (splitOn c s)) \<subseteq> set s"
proof (induction s)
  case Nil
  show ?case by simp
next
  case (Cons x xs)
  obtain l ls where e: "splitOn c xs = l # ls"
    using splitOn_nonempty[of c xs] by (cases "splitOn c xs") auto
  from Cons e have "set l \<subseteq> set xs" "\<Union>(set ` set ls) \<subseteq> set xs" by auto
  with e show ?case by auto
qed

lemma set_trimEnd: "set (trimEnd l) \<subseteq> set l"
  by (auto simp: trimEnd_def dest: set_dropWhileD)

lemma set_collapseFrom: "set (collapseFrom n s) \<subseteq> set s \<union> {LF}"
  by (induction n s rule: collapseFrom.induct) auto

lemma set_replaceChar_CR: "CR \<notin> set (replaceChar CR [LF] s)"
  by (auto simp: replaceChar_def CR_def LF_def)

lemma spec_format_no_CR: "CR \<notin> set (spec_format text)"
proof -
  have "set (spec_format text) \<subseteq> set (replaceChar CR [LF] (replaceCRLF (trim text))) \<union> {LF}"
    unfolding spec_format_def collapseLineBreaks_def by (rule set_collapseFrom)
  moreover have "CR \<noteq> LF" by (simp add: CR_def LF_def)
  ultimately show ?thesis using set_replaceChar_CR by blast
qed

lemma trim_Nil: "trim [] = []"
  by (simp add: trim_def trimEnd_def trimStart_def)

lemma spec_format_Nil: "spec_format [] = []"
  by (simp add: spec_format_def trim_Nil replaceChar_def collapseLineBreaks_def)

lemma format_as_spec:
  "formatTextForQR text = joinWith LF (map trimEnd (splitOn LF (spec_format text)))"
proof (cases "text = []")
  case True
  then show ?thesis
    by (simp add: formatTextForQR_def spec_format_Nil trimEnd_def)
next
  case False
  then show ?thesis by (simp add: formatTextForQR_def spec_format_def Let_def)
qed

lemma format_no_CR: "CR \<notin> set (formatTextForQR text)"
proof
  assume "CR \<in> set (formatTextForQR text)"
  then have "CR \<in> \<Union>(set ` set (map trimEnd (splitOn LF (spec_format text)))) \<union> {LF}"
    using set_joinWith[of LF "map trimEnd (splitOn LF (spec_format text))"]
    unfolding format_as_spec by blast
  moreover have "CR \<noteq> LF" by (simp add: CR_def LF_def)
  ultimately obtain l where "l \<in> set (splitOn LF (spec_format text))" "CR \<in> set (trimEnd l)"
    by auto
  then have "CR \<in> set (spec_format text)"
    using set_trimEnd[of l] set_splitOn[of LF "spec_format text"] by blast
  with spec_format_no_CR show False by blast
qed

lemma format_eq_spec:
  assumes "\<forall>l\<in>set (splitOn LF (spec_format text)). trimEnd l = l"
  shows "formatTextForQR text = spec_format text"
proof -
  from assms have "map trimEnd (splitOn LF (spec_format text)) = splitOn LF (spec_format text)"
    by (simp add: map_idI)
  then show ?thesis by (simp add: format_as_spec join_split)
qed

text \<open>
  Claim C9, as amended. \<open>formatTextForQR\<close> trims the input, turns each CR LF pair and each remaining CR into
  LF, collapses each run of three or more line breaks to two, and then also removes the
  trailing white space of every line; where no line ends in white space its result is the
  trimmed, normalized, collapsed text itself, and it never contains a carriage return. It
  rejects nothing. The length rules are \<open>generateQR\<close>'s: it throws when the trimmed text is
  empty or longer than 2000 characters, and otherwise hands the trimmed text, not
  normalized, to the QR library.
\<close>

theorem text_encode_pass_through:
  "(\<forall>text. formatTextForQR text = joinWith LF (map trimEnd (splitOn LF (spec_format text))))
   \<and> (\<forall>text. (\<forall>l\<in>set (splitOn LF (spec_format text)). trimEnd l = l) \<longrightarrow>
          formatTextForQR text = spec_format text)
   \<and> (\<forall>text. CR \<notin> set (formatTextForQR text))
   \<and> (\<forall>lib text. trim text = [] \<longrightarrow> (\<exists>m. TextQRGenerator_generateQR lib text = Thrown m))
   \<and> (\<forall>lib text. length (trim text) > 2000 \<longrightarrow>
          TextQRGenerator_generateQR lib text =
            Thrown ''Failed to generate QR code: Text content is too long (maximum 2000 characters)'')
   \<and> (\<forall>lib text. trim text \<noteq> [] \<and> length (trim text) \<le> 2000 \<longrightarrow>
          TextQRGenerator_generateQR lib text =
            (case lib (trim text) of Returned u \<Rightarrow> Returned u
             | Thrown m \<Rightarrow> Thrown (''Failed to generate QR code: '' @ m)))"
proof -
  have a: "\<exists>m. TextQRGenerator_generateQR lib t = Thrown m" if "trim t = []" for lib t
    using that by (auto simp: TextQRGenerator_generateQR_def Let_def)
  have b: "TextQRGenerator_generateQR lib t =
            Thrown ''Failed to generate QR code: Text content is too long (maximum 2000 characters)''"
    if "length (trim t) > 2000" for lib t
  proof -
    from that have "t \<noteq> []" using trim_Nil by auto
    with that show ?thesis by (auto simp: TextQRGenerator_generateQR_def Let_def)
  qed
  have c: "TextQRGenerator_generateQR lib t =
            (case lib (trim t) of Returned u \<Rightarrow> Returned u
             | Thrown m \<Rightarrow> Thrown (''Failed to generate QR code: '' @ m))"
    if "trim t \<noteq> [] \<and> length (trim t) \<le> 2000" for lib t
  proof -
    from that have "t \<noteq> []" using trim_Nil by auto
    with that show ?thesis by (auto simp: TextQRGenerator_generateQR_def Let_def)
  qed
  from format_as_spec format_eq_spec format_no_CR a b c show ?thesis by blast
qed

theorem text_encode_pass_through_witness:
  "formatTextForQR [CHR '' '', CHR ''a'', CR, LF, CR, LF, CR, LF, CHR ''b'', CHR '' '']
     = [CHR ''a'', LF, LF, CHR ''b'']
   \<and> TextQRGenerator_generateQR Returned [CHR '' '', CHR ''a'', CHR '' ''] = Returned ''a''
   \<and> (\<exists>m. TextQRGenerator_generateQR Returned [CHR '' '', LF] = Thrown m)"
proof -
  let ?t = "[CHR '' '', CHR ''a'', CR, LF, CR, LF, CR, LF, CHR ''b'', CHR '' '']"
  have s: "spec_format ?t = [CHR ''a'', LF, LF, CHR ''b'']"
    by code_simp
  have l: "\<forall>l\<in>set (splitOn LF (spec_format ?t)). trimEnd l = l"
    unfolding s by code_simp
  have t1: "trim [CHR '' '', CHR ''a'', CHR '' ''] = ''a''" by code_simp
  have t2: "trim [CHR '' '', LF] = []" by code_simp
  from text_encode_pass_through l have "formatTextForQR ?t = spec_format ?t" by blast
  moreover have h: "trim [CHR '' '', CHR ''a'', CHR '' ''] \<noteq> []
      \<and> length (trim [CHR '' '', CHR ''a'', CHR '' '']) \<le> 2000"
    by (simp add: t1)
  from text_encode_pass_through h
  have "TextQRGenerator_generateQR Returned [CHR '' '', CHR ''a'', CHR '' '']
      = (case Returned (trim [CHR '' '', CHR ''a'', CHR '' '']) of Returned u \<Rightarrow> Returned u
         | Thrown m \<Rightarrow> Thrown (''Failed to generate QR code: '' @ m))"
    by blast
  moreover from text_encode_pass_through t2
  have "\<exists>m. TextQRGenerator_generateQR Returned [CHR '' '', LF] = Thrown m"
    by blast
  ultimately show ?thesis by (simp add: s t1)
qed

text \<open>
  The claim as it was written gives the output as the trimmed, normalized, collapsed input.
  \<open>formatTextForQR\<close> also strips the space that ends the first of the two lines \<open>a \<close> and \<open>b\<close>,
  and \<open>generateQR\<close> hands the text a CR LF b to the QR library with its carriage return.
\<close>

theorem text_encode_not_only_normalized:
  "spec_format [CHR ''a'', CHR '' '', LF, CHR ''b''] = [CHR ''a'', CHR '' '', LF, CHR ''b'']
   \<and> formatTextForQR [CHR ''a'', CHR '' '', LF, CHR ''b''] = [CHR ''a'', LF, CHR ''b'']
   \<and> TextQRGenerator_generateQR Returned [CHR ''a'', CR, LF, CHR ''b'']
       = Returned [CHR ''a'', CR, LF, CHR ''b'']"
  by code_simp

section \<open>Proofs: locations\<close>

lemma isDigit_simps:
  "isDigit (CHR ''0'')" "isDigit (CHR ''1'')" "isDigit (CHR ''2'')" "isDigit (CHR ''3'')"
  "isDigit (CHR ''4'')" "isDigit (CHR ''5'')" "isDigit (CHR ''6'')" "isDigit (CHR ''7'')"
  "isDigit (CHR ''8'')" "isDigit (CHR ''9'')" "\<not> isDigit (CHR ''.'')" "\<not> isDigit (CHR ''-'')"
  by (simp_all add: isDigit_def code_def)

lemma char_of_digits:
  "char_of (48::nat) = CHR ''0''" "char_of (49::nat) = CHR ''1''" "char_of (50::nat) = CHR ''2''"
  "char_of (51::nat) = CHR ''3''" "char_of (52::nat) = CHR ''4''" "char_of (53::nat) = CHR ''5''"
  "char_of (54::nat) = CHR ''6''" "char_of (55::nat) = CHR ''7''" "char_of (56::nat) = CHR ''8''"
  "char_of (57::nat) = CHR ''9''"
  by code_simp+

lemma toStringNat_nonempty: "toStringNat n \<noteq> []"
  by (subst toStringNat.simps) simp

lemma code_digit_char: "k < 10 \<Longrightarrow> code (char_of (48 + k)) - 48 = k"
  by (simp add: code_def)

lemma decimalValue_snoc: "decimalValue (xs @ [c]) = decimalValue xs * 10 + (code c - 48)"
  by (simp add: decimalValue_def)

lemma decimalValue_toStringNat: "decimalValue (toStringNat n) = n"
proof (induction n rule: toStringNat.induct)
  case (1 n)
  show ?case
  proof (cases "n < 10")
    case True
    then show ?thesis
      by (subst toStringNat.simps) (simp add: decimalValue_def code_digit_char)
  next
    case False
    have "decimalValue (toStringNat n) =
        decimalValue (toStringNat (n div 10)) * 10 + (code (char_of (48 + n mod 10)) - 48)"
      using False by (subst toStringNat.simps) (simp add: decimalValue_snoc)
    also have "\<dots> = (n div 10) * 10 + n mod 10"
      using 1[OF False] code_digit_char[of "n mod 10"] by simp
    finally show ?thesis by simp
  qed
qed

lemma decimalValue_zeros: "decimalValue (replicate k (CHR ''0'') @ m) = decimalValue m"
proof (induction k)
  case 0
  show ?case by simp
next
  case (Suc k)
  have "decimalValue (CHR ''0'' # (replicate k (CHR ''0'') @ m)) = decimalValue (replicate k (CHR ''0'') @ m)"
    by (simp add: decimalValue_Cons code_def)
  with Suc show ?case by simp
qed

lemma toFixed6_shape:
  assumes "\<bar>x\<bar> < 10 ^ 21"
  shows "\<exists>a b. toFixed6 (Fin x) = Some ((if x < 0 then ''-'' else []) @ a @ ''.'' @ b)
           \<and> a \<noteq> [] \<and> list_all isDigit a \<and> length b = 6 \<and> list_all isDigit b
           \<and> int (decimalValue (a @ b)) = \<lfloor>\<bar>x\<bar> * 10 ^ 6 + 1 / 2\<rfloor>"
proof -
  define n where "n = nat \<lfloor>\<bar>x\<bar> * 10 ^ 6 + 1 / 2\<rfloor>"
  define m0 where "m0 = toStringNat n"
  define m where "m = (if length m0 \<le> 6 then replicate (7 - length m0) (CHR ''0'') @ m0 else m0)"
  define a where "a = take (length m - 6) m"
  define b where "b = drop (length m - 6) m"
  have nonneg: "0 \<le> \<lfloor>\<bar>x\<bar> * 10 ^ 6 + 1 / 2\<rfloor>" by simp
  have d0: "list_all isDigit m0"
    using toStringNat_digits[of n] by (simp add: m0_def list_all_iff)
  have dm: "list_all isDigit m"
    using d0 isDigit_simps(1) by (simp add: m_def list_all_iff)
  have lm: "7 \<le> length m"
    using toStringNat_nonempty[of n] by (auto simp: m_def m0_def)
  have vm: "decimalValue m = n"
    by (simp add: m_def m0_def decimalValue_zeros decimalValue_toStringNat)
  have ab: "a @ b = m" by (simp add: a_def b_def)
  have "a \<noteq> []" using lm by (auto simp: a_def)
  moreover have "list_all isDigit a" "list_all isDigit b"
    using dm by (auto simp: a_def b_def list_all_iff dest: in_set_takeD in_set_dropD)
  moreover have "length b = 6" using lm by (simp add: b_def)
  moreover have "int (decimalValue (a @ b)) = \<lfloor>\<bar>x\<bar> * 10 ^ 6 + 1 / 2\<rfloor>"
    using nonneg by (simp add: ab vm n_def)
  moreover have "toFixed6 (Fin x) = Some ((if x < 0 then ''-'' else []) @ a @ ''.'' @ b)"
    using assms by (simp add: toFixed6_def Let_def n_def m0_def m_def a_def b_def)
  ultimately show ?thesis by blast
qed

lemma validateCoordinates_Ok:
  assumes "validateCoordinates lat lng = Ok ()"
  shows "\<exists>x y. lat = Fin x \<and> lng = Fin y \<and> \<bar>x\<bar> \<le> 90 \<and> \<bar>y\<bar> \<le> 180"
proof -
  from assms have "\<not> isNaN lat" "\<not> isNaN lng" "\<not> num_lt lat (- 90)" "\<not> num_gt lat 90"
      "\<not> num_lt lng (- 180)" "\<not> num_gt lng 180"
    by (auto simp: validateCoordinates_def split: if_splits)
  then show ?thesis
    by (cases lat; cases lng) auto
qed

lemma bitLength_samples:
  "bitLength 407128 = 19" "bitLength 10000 = 14" "bitLength 740060 = 20"
  "bitLength 74006 = 17" "bitLength 1000 = 10"
  "bitLength 407127755 = 29" "bitLength 10000000 = 24" "bitLength 740059725 = 30"
  by (simp_all add: bitLength.simps)

lemma nearestDouble_samples:
  "nearestDouble 407128 10000 = Fin (2864908607956399 / 2 ^ 46)"
  "nearestDouble 740060 10000 = Fin (2603854640806101 / 2 ^ 45)"
  "nearestDouble 74006 1000 = Fin (2603854640806101 / 2 ^ 45)"
  "nearestDouble 407127755 10000000 = Fin (5729813767844333 / 2 ^ 47)"
  "nearestDouble 740059725 10000000 = Fin (5207707346471737 / 2 ^ 46)"
  by (simp_all add: nearestDouble_def bitLength_samples Let_def roundHalfEven_def)

lemma literal_parts:
  "parseFloat ''40.7128'' = nearestDouble 407128 (10 ^ 4)"
  "parseFloat ''-74.0060'' = negate (nearestDouble 740060 (10 ^ 4))"
  "parseFloat ''-74.006'' = negate (nearestDouble 74006 (10 ^ 3))"
  "parseFloat ''40.7127755'' = nearestDouble 407127755 (10 ^ 7)"
  "parseFloat ''-74.0059725'' = negate (nearestDouble 740059725 (10 ^ 7))"
  by (simp_all add: parseFloat_def trimStart_def isSpace_def startsWith_def Let_def isDigit_simps
      digitsValue_def decimalExponent_def code_def)

lemma parse_sample_numbers:
  "parseFloat ''40.7128'' = Fin (2864908607956399 / 2 ^ 46)"
  "parseFloat ''-74.0060'' = Fin (- (2603854640806101 / 2 ^ 45))"
  "parseFloat ''-74.006'' = Fin (- (2603854640806101 / 2 ^ 45))"
  "parseFloat ''40.7127755'' = Fin (5729813767844333 / 2 ^ 47)"
  "parseFloat ''-74.0059725'' = Fin (- (5207707346471737 / 2 ^ 46))"
  using nearestDouble_samples by (simp_all add: literal_parts)

lemma toStringNat_samples:
  "toStringNat 40712800 = ''40712800''" "toStringNat 74006000 = ''74006000''"
  "toStringNat 40712775 = ''40712775''" "toStringNat 74005972 = ''74005972''"
  by (simp_all add: toStringNat.simps char_of_digits)

lemma toFixed6_samples:
  "toFixed6 (Fin (2864908607956399 / 2 ^ 46)) = Some ''40.712800''"
  "toFixed6 (Fin (- (2603854640806101 / 2 ^ 45))) = Some ''-74.006000''"
  "toFixed6 (Fin (5729813767844333 / 2 ^ 47)) = Some ''40.712775''"
  "toFixed6 (Fin (- (5207707346471737 / 2 ^ 46))) = Some ''-74.005972''"
proof -
  have "\<lfloor>(2864908607956399 / 2 ^ 46 :: rat) * 10 ^ 6 + 1 / 2\<rfloor> = 40712800"
    by (simp add: floor_eq_iff)
  then show "toFixed6 (Fin (2864908607956399 / 2 ^ 46)) = Some ''40.712800''"
    by (simp add: toFixed6_def Let_def toStringNat_samples)
  have "\<lfloor>\<bar>- (2603854640806101 / 2 ^ 45) :: rat\<bar> * 10 ^ 6 + 1 / 2\<rfloor> = 74006000"
    by (simp add: floor_eq_iff)
  then show "toFixed6 (Fin (- (2603854640806101 / 2 ^ 45))) = Some ''-74.006000''"
    by (simp add: toFixed6_def Let_def toStringNat_samples)
  have "\<lfloor>(5729813767844333 / 2 ^ 47 :: rat) * 10 ^ 6 + 1 / 2\<rfloor> = 40712775"
    by (simp add: floor_eq_iff)
  then show "toFixed6 (Fin (5729813767844333 / 2 ^ 47)) = Some ''40.712775''"
    by (simp add: toFixed6_def Let_def toStringNat_samples)
  have "\<lfloor>\<bar>- (5207707346471737 / 2 ^ 46) :: rat\<bar> * 10 ^ 6 + 1 / 2\<rfloor> = 74005972"
    by (simp add: floor_eq_iff)
  then show "toFixed6 (Fin (- (5207707346471737 / 2 ^ 46))) = Some ''-74.005972''"
    by (simp add: toFixed6_def Let_def toStringNat_samples)
qed

lemma parse_by_q:
  "searchFrom (matchParam ''q'') (trim url) = Some m \<Longrightarrow> parseGoogleMapsUrl url = Ok (coordinates m)"
  by (simp add: parseGoogleMapsUrl_def Let_def)

lemma parse_by_at:
  "searchFrom (matchParam ''q'') (trim url) = None \<Longrightarrow> searchFrom matchAt (trim url) = Some m
   \<Longrightarrow> parseGoogleMapsUrl url = Ok (coordinates m)"
  by (simp add: parseGoogleMapsUrl_def Let_def)

text \<open>
  Claim C8. Parsing \<open>https://www.google.com/maps/@40.7128,-74.0060,15z\<close> gives the numbers
  that a script writes as 40.7128 and -74.006: the doubles \<open>2864908607956399 / 2^46\<close> and
  \<open>- 2603854640806101 / 2^45\<close>, which lie within half a unit in the last place of the
  decimals (\<open>2^-48\<close> and \<open>2^-47\<close>). For any two finite coordinates (below \<open>10^21\<close> in size,
  which every coordinate that \<open>validateCoordinates\<close> accepts is) \<open>generateGeoUri\<close> returns
  \<open>geo:<lat>,<lon>\<close> where each component is an optional minus sign, digits, a dot and exactly
  six digits, and those digits are the component rounded to six decimal places. Encoding the
  parsed coordinate gives \<open>geo:40.712800,-74.006000\<close>. The rounding is that of the double
  which was read, not of the decimal in the URL: \<open>@40.7127755,-74.0059725,15z\<close> is parsed and
  encoded as \<open>geo:40.712775,-74.005972\<close>.
\<close>

theorem geo_round_trip:
  "parseGoogleMapsUrl ''https://www.google.com/maps/@40.7128,-74.0060,15z''
     = Ok (Fin (2864908607956399 / 2 ^ 46), Fin (- (2603854640806101 / 2 ^ 45)))
   \<and> parseFloat ''40.7128'' = Fin (2864908607956399 / 2 ^ 46)
   \<and> parseFloat ''-74.006'' = Fin (- (2603854640806101 / 2 ^ 45))
   \<and> \<bar>2864908607956399 / 2 ^ 46 - (40.7128::rat)\<bar> < 1 / 2 ^ 48
   \<and> \<bar>- (2603854640806101 / 2 ^ 45) - (- 74.006::rat)\<bar> < 1 / 2 ^ 47
   \<and> (\<forall>lat lng. validateCoordinates lat lng = Ok () \<longrightarrow>
          (\<exists>x y. lat = Fin x \<and> lng = Fin y \<and> \<bar>x\<bar> \<le> 90 \<and> \<bar>y\<bar> \<le> 180))
   \<and> (\<forall>x y. \<bar>x\<bar> < 10 ^ 21 \<and> \<bar>y\<bar> < 10 ^ 21 \<longrightarrow>
          (\<exists>a b c d.
             generateGeoUri (Fin x) (Fin y) =
               Some (''geo:'' @ (if x < 0 then ''-'' else []) @ a @ ''.'' @ b @ '',''
                     @ (if y < 0 then ''-'' else []) @ c @ ''.'' @ d)
             \<and> a \<noteq> [] \<and> list_all isDigit a \<and> length b = 6 \<and> list_all isDigit b
             \<and> int (decimalValue (a @ b)) = \<lfloor>\<bar>x\<bar> * 10 ^ 6 + 1 / 2\<rfloor>
             \<and> c \<noteq> [] \<and> list_all isDigit c \<and> length d = 6 \<and> list_all isDigit d
             \<and> int (decimalValue (c @ d)) = \<lfloor>\<bar>y\<bar> * 10 ^ 6 + 1 / 2\<rfloor>))
   \<and> generateGeoUri (Fin (2864908607956399 / 2 ^ 46)) (Fin (- (2603854640806101 / 2 ^ 45)))
       = Some ''geo:40.712800,-74.006000''
   \<and> parseGoogleMapsUrl ''https://www.google.com/maps/@40.7127755,-74.0059725,15z''
       = Ok (Fin (5729813767844333 / 2 ^ 47), Fin (- (5207707346471737 / 2 ^ 46)))
   \<and> generateGeoUri (Fin (5729813767844333 / 2 ^ 47)) (Fin (- (5207707346471737 / 2 ^ 46)))
       = Some ''geo:40.712775,-74.005972''"
proof -
  let ?u = "''https://www.google.com/maps/@40.7128,-74.0060,15z''"
  let ?w = "''https://www.google.com/maps/@40.7127755,-74.0059725,15z''"
  have q: "searchFrom (matchParam ''q'') (trim ?u) = None" by code_simp
  have a: "searchFrom matchAt (trim ?u) = Some (''40.7128'', ''-74.0060'')" by code_simp
  have p: "parseGoogleMapsUrl ?u
      = Ok (Fin (2864908607956399 / 2 ^ 46), Fin (- (2603854640806101 / 2 ^ 45)))"
    using parse_by_at[OF q a] by (simp add: coordinates_def parse_sample_numbers)
  have q': "searchFrom (matchParam ''q'') (trim ?w) = None" by code_simp
  have a': "searchFrom matchAt (trim ?w) = Some (''40.7127755'', ''-74.0059725'')" by code_simp
  have p': "parseGoogleMapsUrl ?w
      = Ok (Fin (5729813767844333 / 2 ^ 47), Fin (- (5207707346471737 / 2 ^ 46)))"
    using parse_by_at[OF q' a'] by (simp add: coordinates_def parse_sample_numbers)
  have n1: "\<bar>2864908607956399 / 2 ^ 46 - (40.7128::rat)\<bar> < 1 / 2 ^ 48" by simp
  have n2: "\<bar>- (2603854640806101 / 2 ^ 45) - (- 74.006::rat)\<bar> < 1 / 2 ^ 47" by simp
  have g: "\<exists>a b c d.
             generateGeoUri (Fin x) (Fin y) =
               Some (''geo:'' @ (if x < 0 then ''-'' else []) @ a @ ''.'' @ b @ '',''
                     @ (if y < 0 then ''-'' else []) @ c @ ''.'' @ d)
             \<and> a \<noteq> [] \<and> list_all isDigit a \<and> length b = 6 \<and> list_all isDigit b
             \<and> int (decimalValue (a @ b)) = \<lfloor>\<bar>x\<bar> * 10 ^ 6 + 1 / 2\<rfloor>
             \<and> c \<noteq> [] \<and> list_all isDigit c \<and> length d = 6 \<and> list_all isDigit d
             \<and> int (decimalValue (c @ d)) = \<lfloor>\<bar>y\<bar> * 10 ^ 6 + 1 / 2\<rfloor>"
    if h: "\<bar>x\<bar> < 10 ^ 21 \<and> \<bar>y\<bar> < 10 ^ 21" for x y
  proof -
    from h toFixed6_shape[of x] obtain a b where
      ab: "toFixed6 (Fin x) = Some ((if x < 0 then ''-'' else []) @ a @ ''.'' @ b)"
        "a \<noteq> []" "list_all isDigit a" "length b = 6" "list_all isDigit b"
        "int (decimalValue (a @ b)) = \<lfloor>\<bar>x\<bar> * 10 ^ 6 + 1 / 2\<rfloor>"
      by blast
    from h toFixed6_shape[of y] obtain c d where
      cd: "toFixed6 (Fin y) = Some ((if y < 0 then ''-'' else []) @ c @ ''.'' @ d)"
        "c \<noteq> []" "list_all isDigit c" "length d = 6" "list_all isDigit d"
        "int (decimalValue (c @ d)) = \<lfloor>\<bar>y\<bar> * 10 ^ 6 + 1 / 2\<rfloor>"
      by blast
    have "generateGeoUri (Fin x) (Fin y) =
               Some (''geo:'' @ (if x < 0 then ''-'' else []) @ a @ ''.'' @ b @ '',''
                     @ (if y < 0 then ''-'' else []) @ c @ ''.'' @ d)"
      by (simp add: generateGeoUri_def ab(1) cd(1))
    with ab(2-) cd(2-) show ?thesis by blast
  qed
  have e: "generateGeoUri (Fin (2864908607956399 / 2 ^ 46)) (Fin (- (2603854640806101 / 2 ^ 45)))
      = Some ''geo:40.712800,-74.006000''"
    unfolding generateGeoUri_def toFixed6_samples by simp
  have e': "generateGeoUri (Fin (5729813767844333 / 2 ^ 47)) (Fin (- (5207707346471737 / 2 ^ 46)))
      = Some ''geo:40.712775,-74.005972''"
    unfolding generateGeoUri_def toFixed6_samples by simp
  from g have g': "\<forall>x y. \<bar>x\<bar> < 10 ^ 21 \<and> \<bar>y\<bar> < 10 ^ 21 \<longrightarrow>
          (\<exists>a b c d.
             generateGeoUri (Fin x) (Fin y) =
               Some (''geo:'' @ (if x < 0 then ''-'' else []) @ a @ ''.'' @ b @ '',''
                     @ (if y < 0 then ''-'' else []) @ c @ ''.'' @ d)
             \<and> a \<noteq> [] \<and> list_all isDigit a \<and> length b = 6 \<and> list_all isDigit b
             \<and> int (decimalValue (a @ b)) = \<lfloor>\<bar>x\<bar> * 10 ^ 6 + 1 / 2\<rfloor>
             \<and> c \<noteq> [] \<and> list_all isDigit c \<and> length d = 6 \<and> list_all isDigit d
             \<and> int (decimalValue (c @ d)) = \<lfloor>\<bar>y\<bar> * 10 ^ 6 + 1 / 2\<rfloor>)"
    by blast
  have v: "\<forall>lat lng. validateCoordinates lat lng = Ok () \<longrightarrow>
          (\<exists>x y. lat = Fin x \<and> lng = Fin y \<and> \<bar>x\<bar> \<le> 90 \<and> \<bar>y\<bar> \<le> 180)"
    using validateCoordinates_Ok by blast
  show ?thesis
    apply (intro conjI)
            apply (rule p)
           apply (rule parse_sample_numbers(1))
          apply (rule parse_sample_numbers(3))
         apply (rule n1)
        apply (rule n2)
       apply (rule v)
      apply (rule g')
     apply (rule e)
    apply (rule p')
    apply (rule e')
    done
qed

theorem geo_round_trip_witness:
  "validateCoordinates (Fin (2864908607956399 / 2 ^ 46)) (Fin (- (2603854640806101 / 2 ^ 45))) = Ok ()
   \<and> (\<exists>a b c d. generateGeoUri (Fin (2864908607956399 / 2 ^ 46)) (Fin (- (2603854640806101 / 2 ^ 45))) =
          Some (''geo:'' @ a @ ''.'' @ b @ '',-'' @ c @ ''.'' @ d) \<and> length b = 6 \<and> length d = 6)"
proof -
  let ?x = "2864908607956399 / 2 ^ 46 :: rat"
  let ?y = "- (2603854640806101 / 2 ^ 45) :: rat"
  have v: "validateCoordinates (Fin ?x) (Fin ?y) = Ok ()"
    by (simp add: validateCoordinates_def)
  have h: "\<bar>?x\<bar> < 10 ^ 21 \<and> \<bar>?y\<bar> < 10 ^ 21" by simp
  have neg: "\<not> ?x < 0" "?y < 0" by simp_all
  from geo_round_trip have "\<forall>x y. \<bar>x\<bar> < 10 ^ 21 \<and> \<bar>y\<bar> < 10 ^ 21 \<longrightarrow>
          (\<exists>a b c d.
             generateGeoUri (Fin x) (Fin y) =
               Some (''geo:'' @ (if x < 0 then ''-'' else []) @ a @ ''.'' @ b @ '',''
                     @ (if y < 0 then ''-'' else []) @ c @ ''.'' @ d)
             \<and> a \<noteq> [] \<and> list_all isDigit a \<and> length b = 6 \<and> list_all isDigit b
             \<and> int (decimalValue (a @ b)) = \<lfloor>\<bar>x\<bar> * 10 ^ 6 + 1 / 2\<rfloor>
             \<and> c \<noteq> [] \<and> list_all isDigit c \<and> length d = 6 \<and> list_all isDigit d
             \<and> int (decimalValue (c @ d)) = \<lfloor>\<bar>y\<bar> * 10 ^ 6 + 1 / 2\<rfloor>)"
    by (elim conjE)
  from this[rule_format, OF h] obtain a b c d where
    "generateGeoUri (Fin ?x) (Fin ?y) =
       Some (''geo:'' @ (if ?x < 0 then ''-'' else []) @ a @ ''.'' @ b @ '',''
             @ (if ?y < 0 then ''-'' else []) @ c @ ''.'' @ d)"
    "length b = 6" "length d = 6"
    by blast
  then have "generateGeoUri (Fin ?x) (Fin ?y) =
       Some (''geo:'' @ a @ ''.'' @ b @ '',-'' @ c @ ''.'' @ d) \<and> length b = 6 \<and> length d = 6"
    unfolding if_not_P[OF neg(1)] if_P[OF neg(2)] by simp
  with v show ?thesis by blast
qed

text \<open>
  Claim C3, as amended. On the trimmed URL \<open>parseGoogleMapsUrl\<close> tries, in this order, the
  patterns \<open>?q=lat,lng\<close>, \<open>@lat,lng,\<close>, \<open>/lat,lng\<close>, \<open>?ll=lat,lng\<close> and \<open>?center=lat,lng\<close>,
  and returns the coordinates of the first one that matches. Only when none of the five
  matches does it look for a short-link marker (\<open>goo.gl/maps\<close> or \<open>maps.app.goo.gl\<close>) and
  reject the URL with the short-URL error; so a URL with a marker is rejected with that error
  exactly when none of the five patterns matches it. Without a marker the generic pattern of
  two decimals with at least four fractional digits is tried last, and its coordinates are
  returned if they lie in the latitude and longitude ranges; otherwise the URL is rejected as
  holding no coordinates.
\<close>

theorem maps_url_priority:
  "(\<forall>url m. searchFrom (matchParam ''q'') (trim url) = Some m \<longrightarrow>
      parseGoogleMapsUrl url = Ok (coordinates m))
   \<and> (\<forall>url m. searchFrom (matchParam ''q'') (trim url) = None
        \<and> searchFrom matchAt (trim url) = Some m \<longrightarrow>
      parseGoogleMapsUrl url = Ok (coordinates m))
   \<and> (\<forall>url m. searchFrom (matchParam ''q'') (trim url) = None
        \<and> searchFrom matchAt (trim url) = None
        \<and> searchFrom matchPath (trim url) = Some m \<longrightarrow>
      parseGoogleMapsUrl url = Ok (coordinates m))
   \<and> (\<forall>url m. searchFrom (matchParam ''q'') (trim url) = None
        \<and> searchFrom matchAt (trim url) = None
        \<and> searchFrom matchPath (trim url) = None
        \<and> searchFrom (matchParam ''ll'') (trim url) = Some m \<longrightarrow>
      parseGoogleMapsUrl url = Ok (coordinates m))
   \<and> (\<forall>url m. searchFrom (matchParam ''q'') (trim url) = None
        \<and> searchFrom matchAt (trim url) = None
        \<and> searchFrom matchPath (trim url) = None
        \<and> searchFrom (matchParam ''ll'') (trim url) = None
        \<and> searchFrom (matchParam ''center'') (trim url) = Some m \<longrightarrow>
      parseGoogleMapsUrl url = Ok (coordinates m))
   \<and> (\<forall>url. includesStr (trim url) ''goo.gl/maps'' \<or> includesStr (trim url) ''maps.app.goo.gl'' \<longrightarrow>
      (parseGoogleMapsUrl url = Fail shortUrlError \<longleftrightarrow>
         searchFrom (matchParam ''q'') (trim url) = None
         \<and> searchFrom matchAt (trim url) = None
         \<and> searchFrom matchPath (trim url) = None
         \<and> searchFrom (matchParam ''ll'') (trim url) = None
         \<and> searchFrom (matchParam ''center'') (trim url) = None))
   \<and> (\<forall>url. searchFrom (matchParam ''q'') (trim url) = None
        \<and> searchFrom matchAt (trim url) = None
        \<and> searchFrom matchPath (trim url) = None
        \<and> searchFrom (matchParam ''ll'') (trim url) = None
        \<and> searchFrom (matchParam ''center'') (trim url) = None
        \<and> \<not> includesStr (trim url) ''goo.gl/maps'' \<and> \<not> includesStr (trim url) ''maps.app.goo.gl'' \<longrightarrow>
      parseGoogleMapsUrl url =
        (case searchFrom matchCoordPair (trim url) of
           None \<Rightarrow> Fail noCoordinatesError
         | Some m \<Rightarrow>
            if inRange (parseFloat (fst m)) (parseFloat (snd m)) then Ok (coordinates m)
            else Fail noCoordinatesError))"
proof -
  have s: "\<forall>url. includesStr (trim url) ''goo.gl/maps'' \<or> includesStr (trim url) ''maps.app.goo.gl'' \<longrightarrow>
      (parseGoogleMapsUrl url = Fail shortUrlError \<longleftrightarrow>
         searchFrom (matchParam ''q'') (trim url) = None
         \<and> searchFrom matchAt (trim url) = None
         \<and> searchFrom matchPath (trim url) = None
         \<and> searchFrom (matchParam ''ll'') (trim url) = None
         \<and> searchFrom (matchParam ''center'') (trim url) = None)"
    by (auto simp: parseGoogleMapsUrl_def Let_def split: option.splits)
  have l: "\<forall>url. searchFrom (matchParam ''q'') (trim url) = None
        \<and> searchFrom matchAt (trim url) = None
        \<and> searchFrom matchPath (trim url) = None
        \<and> searchFrom (matchParam ''ll'') (trim url) = None
        \<and> searchFrom (matchParam ''center'') (trim url) = None
        \<and> \<not> includesStr (trim url) ''goo.gl/maps'' \<and> \<not> includesStr (trim url) ''maps.app.goo.gl'' \<longrightarrow>
      parseGoogleMapsUrl url =
        (case searchFrom matchCoordPair (trim url) of
           None \<Rightarrow> Fail noCoordinatesError
         | Some m \<Rightarrow>
            if inRange (parseFloat (fst m)) (parseFloat (snd m)) then Ok (coordinates m)
            else Fail noCoordinatesError)"
    by (simp add: parseGoogleMapsUrl_def Let_def coordinates_def split: option.splits)
  show ?thesis
    apply (intro conjI)
          apply (simp add: parseGoogleMapsUrl_def Let_def)
         apply (simp add: parseGoogleMapsUrl_def Let_def)
        apply (simp add: parseGoogleMapsUrl_def Let_def)
       apply (simp add: parseGoogleMapsUrl_def Let_def)
      apply (simp add: parseGoogleMapsUrl_def Let_def)
     apply (rule s)
    apply (rule l)
    done
qed

theorem maps_url_priority_witness:
  "parseGoogleMapsUrl ''https://maps.google.com/maps?ll=40.7128,-74.0060&q=40.7128,-74.0060''
     = Ok (Fin (2864908607956399 / 2 ^ 46), Fin (- (2603854640806101 / 2 ^ 45)))
   \<and> parseGoogleMapsUrl ''https://maps.app.goo.gl/AbCdEf123'' = Fail shortUrlError"
proof -
  let ?u = "''https://maps.google.com/maps?ll=40.7128,-74.0060&q=40.7128,-74.0060''"
  let ?v = "''https://maps.app.goo.gl/AbCdEf123''"
  have q: "searchFrom (matchParam ''q'') (trim ?u) = Some (''40.7128'', ''-74.0060'')" by code_simp
  have n: "searchFrom (matchParam ''q'') (trim ?v) = None
         \<and> searchFrom matchAt (trim ?v) = None
         \<and> searchFrom matchPath (trim ?v) = None
         \<and> searchFrom (matchParam ''ll'') (trim ?v) = None
         \<and> searchFrom (matchParam ''center'') (trim ?v) = None"
    by code_simp
  have i: "includesStr (trim ?v) ''goo.gl/maps'' \<or> includesStr (trim ?v) ''maps.app.goo.gl''"
    by code_simp
  from maps_url_priority q
  have "parseGoogleMapsUrl ?u = Ok (coordinates (''40.7128'', ''-74.0060''))" by blast
  moreover from maps_url_priority i n
  have "parseGoogleMapsUrl ?v = Fail shortUrlError" by blast
  ultimately show ?thesis by (simp add: coordinates_def parse_sample_numbers)
qed

text \<open>
  The claim as it was written rejects every URL that contains a short-link marker. A URL
  with the marker \<open>goo.gl/maps\<close> and a \<open>q\<close> parameter is parsed, not rejected.
\<close>

theorem short_link_marker_parsed:
  "includesStr ''https://goo.gl/maps?q=40.7128,-74.0060'' ''goo.gl/maps''
   \<and> parseGoogleMapsUrl ''https://goo.gl/maps?q=40.7128,-74.0060''
       = Ok (Fin (2864908607956399 / 2 ^ 46), Fin (- (2603854640806101 / 2 ^ 45)))"
proof -
  let ?u = "''https://goo.gl/maps?q=40.7128,-74.0060''"
  have i: "includesStr ?u ''goo.gl/maps''" by code_simp
  have q: "searchFrom (matchParam ''q'') (trim ?u) = Some (''40.7128'', ''-74.0060'')"
    by code_simp
  have "parseGoogleMapsUrl ?u = Ok (Fin (2864908607956399 / 2 ^ 46), Fin (- (2603854640806101 / 2 ^ 45)))"
    using parse_by_q[OF q] by (simp add: coordinates_def parse_sample_numbers)
  with i show ?thesis by blast
qed

section \<open>Proofs: returned failures and thrown errors\<close>





























section \<open>Proofs: calendar events and the clock\<close>

lemma if_append_left: "(if c then x @ y else x) = x @ (if c then y else [])"
  by simp

lemma if_append_both: "(if c then x @ y else x @ z) = x @ (if c then y else z)"
  by simp

lemma generateICalString_parts:
  "generateICalString h t n e =
     (case eventLines h e of
        Thrown m \<Rightarrow> Thrown m
      | Returned b \<Rightarrow>
          Returned (icalHead (compactStamp (toISOString t)) (toStringInt n) @ b
                    @ icalTail (compactStamp (toISOString t))))"
proof (cases "formatICalDateTime h (startDate e) (startTime e) (allDay e)")
  case (Thrown m)
  then show ?thesis by (simp add: generateICalString_def eventLines_def Let_def)
next
  case s: (Returned sd)
  show ?thesis
  proof (cases "formatICalDateTime h (endDate e) (endTime e) (allDay e)")
    case (Thrown m)
    with s show ?thesis by (simp add: generateICalString_def eventLines_def Let_def)
  next
    case (Returned ed)
    with s show ?thesis
      by (simp add: generateICalString_def eventLines_def icalHead_def icalTail_def Let_def
          if_append_left if_append_both split del: if_split cong: if_cong)
  qed
qed

lemma toStringNat_inj: "toStringNat a = toStringNat b \<Longrightarrow> a = b"
  by (metis decimalValue_toStringNat)

lemma toStringNat_no_minus: "CHR ''-'' \<notin> set (toStringNat a)"
  using toStringNat_digits[of a] isDigit_simps(12) by blast

lemma toStringInt_inj: "toStringInt a = toStringInt b \<Longrightarrow> a = b"
proof -
  assume h: "toStringInt a = toStringInt b"
  have neg: "hd (toStringInt i) = CHR ''-'' \<longleftrightarrow> i < 0" for i
  proof (cases "i < 0")
    case True
    then show ?thesis by (simp add: toStringInt_def)
  next
    case False
    have "hd (toStringNat (nat i)) \<in> set (toStringNat (nat i))"
      using toStringNat_nonempty by simp
    with toStringNat_no_minus have "hd (toStringNat (nat i)) \<noteq> CHR ''-''" by metis
    with False show ?thesis by (simp add: toStringInt_def)
  qed
  from h neg[of a] neg[of b] have s: "a < 0 \<longleftrightarrow> b < 0" by simp
  show "a = b"
  proof (cases "a < 0")
    case True
    with s h have "toStringNat (nat (- a)) = toStringNat (nat (- b))"
      by (simp add: toStringInt_def)
    then have "nat (- a) = nat (- b)" by (rule toStringNat_inj)
    with True s show ?thesis by simp
  next
    case False
    with s h have "toStringNat (nat a) = toStringNat (nat b)"
      by (simp add: toStringInt_def)
    then have "nat a = nat b" by (rule toStringNat_inj)
    with False s show ?thesis by simp
  qed
qed

lemma toStringInt_no_at: "CHR ''@'' \<notin> set (toStringInt i)"
proof -
  have "\<not> isDigit (CHR ''@'')" by (simp add: isDigit_def code_def)
  then have "CHR ''@'' \<notin> set (toStringNat k)" for k
    using toStringNat_digits[of k] by blast
  then show ?thesis by (simp add: toStringInt_def)
qed

lemma before_at_unique:
  assumes "u @ CHR ''@'' # r = u' @ CHR ''@'' # r'" "CHR ''@'' \<notin> set u" "CHR ''@'' \<notin> set u'"
  shows "u = u'"
proof -
  have "takeWhile (\<lambda>c. c \<noteq> CHR ''@'') (u @ CHR ''@'' # r) = u"
    using assms(2) by (auto simp: takeWhile_tail)
  moreover have "takeWhile (\<lambda>c. c \<noteq> CHR ''@'') (u' @ CHR ''@'' # r') = u'"
    using assms(3) by (auto simp: takeWhile_tail)
  ultimately show ?thesis using assms(1) by simp
qed

lemma icalHead_uid:
  assumes "icalHead ts u @ x = icalHead ts' u' @ x'" "CHR ''@'' \<notin> set u" "CHR ''@'' \<notin> set u'"
  shows "u = u'"
proof -
  from assms(1) have "u @ CHR ''@'' # (''qubex.it'' @ [LF] @ ''DTSTAMP:'' @ ts @ [LF] @ x)
      = u' @ CHR ''@'' # (''qubex.it'' @ [LF] @ ''DTSTAMP:'' @ ts' @ [LF] @ x')"
    by (simp add: icalHead_def)
  then show ?thesis using assms(2,3) by (rule before_at_unique)
qed

lemma different_now_different_output:
  assumes "generateICalString h t n e = Returned s" "n \<noteq> n'"
  shows "generateICalString h t' n' e \<noteq> Returned s"
proof
  assume a: "generateICalString h t' n' e = Returned s"
  from assms(1) obtain b where b: "eventLines h e = Returned b"
    by (cases "eventLines h e") (simp_all add: generateICalString_parts)
  from assms(1) a b have
    "icalHead (compactStamp (toISOString t)) (toStringInt n) @ (b @ icalTail (compactStamp (toISOString t)))
     = icalHead (compactStamp (toISOString t')) (toStringInt n') @ (b @ icalTail (compactStamp (toISOString t')))"
    by (simp add: generateICalString_parts)
  then have "toStringInt n = toStringInt n'"
    by (rule icalHead_uid) (rule toStringInt_no_at)+
  with assms(2) toStringInt_inj show False by blast
qed

lemma thrown_whatever_the_clock:
  "generateICalString h t n e = Thrown m \<Longrightarrow> generateICalString h t' n' e = Thrown m"
  by (cases "eventLines h e") (simp_all add: generateICalString_parts)

lemma launchParty_lines:
  "eventLines utcHost launchParty =
     Returned (''SUMMARY:Launch'' @ [BSL] @ '', party'' @ [LF]
               @ ''DTSTART;VALUE=DATE:20250601'' @ [LF] @ ''DTEND;VALUE=DATE:20250602'' @ [LF]
               @ ''LOCATION:Room 1'' @ [BSL] @ '';2'' @ [LF]
               @ ''ORGANIZER;CN='' @ [DQ] @ ''Jane Doe'' @ [DQ] @ '':MAILTO:jane@example.com'' @ [LF])"
  by code_simp

lemma sample_stamps:
  "compactStamp (toISOString 1700000000000) = ''20231114T221320Z''"
  "compactStamp (toISOString 1700000001000) = ''20231114T221321Z''"
  by code_simp+

lemma sample_uids:
  "toStringInt 1700000000000 = ''1700000000000''"
  "toStringInt 1700000001000 = ''1700000001000''"
  by (simp_all add: toStringInt_def toStringNat.simps char_of_digits)

lemma payment_timestamp:
  "PaymentQRGenerator_generateQR lib now s = Returned r \<Longrightarrow>
   timestamp r = now
   \<and> PaymentQRGenerator_generateQR lib now' s = Returned (r\<lparr>timestamp := now'\<rparr>)"
  by (auto simp: PaymentQRGenerator_generateQR_def split: if_splits outcome.splits)

lemma payment_thrown_whatever_the_clock:
  "PaymentQRGenerator_generateQR lib now s = Thrown m \<Longrightarrow>
   PaymentQRGenerator_generateQR lib now' s = Thrown m"
  by (auto simp: PaymentQRGenerator_generateQR_def split: if_splits outcome.splits)

text \<open>
  Claim C5, as amended. Two encoders read the clock and are not functions of their input
  alone. The event encoder is a function of its input, the host's time zone and two clock
  readings. Its output is the event's own lines, which no clock reading enters, between a
  head whose \<open>UID\<close> line carries \<open>Date.now()\<close> and whose \<open>DTSTAMP\<close> line carries the current
  UTC time, and a tail whose \<open>CREATED\<close> and \<open>LAST-MODIFIED\<close> lines carry that time again. So
  two calls on equal inputs return different strings whenever \<open>Date.now()\<close> has moved on
  between them; whether the encoder throws, and with what error, does not depend on the
  clock. \<open>PaymentQRGenerator.generateQR\<close> puts \<open>Date.now()\<close> into the \<open>timestamp\<close> of its
  result; the rest of the result, and whether it throws and with what error, do not depend
  on the clock.
\<close>

theorem event_encode_reads_clock:
  "(\<forall>h t n e. generateICalString h t n e =
       (case eventLines h e of
          Thrown m \<Rightarrow> Thrown m
        | Returned b \<Rightarrow>
            Returned (icalHead (compactStamp (toISOString t)) (toStringInt n) @ b
                      @ icalTail (compactStamp (toISOString t)))))
   \<and> (\<forall>h t n t' n' e s. generateICalString h t n e = Returned s \<and> n \<noteq> n' \<longrightarrow>
          generateICalString h t' n' e \<noteq> Returned s)
   \<and> (\<forall>h t n t' n' e m. generateICalString h t n e = Thrown m \<longrightarrow>
          generateICalString h t' n' e = Thrown m)
   \<and> (\<forall>lib now now' s r. PaymentQRGenerator_generateQR lib now s = Returned r \<longrightarrow>
          timestamp r = now
          \<and> PaymentQRGenerator_generateQR lib now' s = Returned (r\<lparr>timestamp := now'\<rparr>))
   \<and> (\<forall>lib now now' s m. PaymentQRGenerator_generateQR lib now s = Thrown m \<longrightarrow>
          PaymentQRGenerator_generateQR lib now' s = Thrown m)"
proof -
  have a: "\<forall>h t n e. generateICalString h t n e =
       (case eventLines h e of
          Thrown m \<Rightarrow> Thrown m
        | Returned b \<Rightarrow>
            Returned (icalHead (compactStamp (toISOString t)) (toStringInt n) @ b
                      @ icalTail (compactStamp (toISOString t))))"
    using generateICalString_parts by blast
  have b: "\<forall>h t n t' n' e s. generateICalString h t n e = Returned s \<and> n \<noteq> n' \<longrightarrow>
          generateICalString h t' n' e \<noteq> Returned s"
    using different_now_different_output by blast
  have c: "\<forall>h t n t' n' e m. generateICalString h t n e = Thrown m \<longrightarrow>
          generateICalString h t' n' e = Thrown m"
    using thrown_whatever_the_clock by blast
  have d: "\<forall>lib now now' s r. PaymentQRGenerator_generateQR lib now s = Returned r \<longrightarrow>
          timestamp r = now
          \<and> PaymentQRGenerator_generateQR lib now' s = Returned (r\<lparr>timestamp := now'\<rparr>)"
    using payment_timestamp by blast
  have e: "\<forall>lib now now' s m. PaymentQRGenerator_generateQR lib now s = Thrown m \<longrightarrow>
          PaymentQRGenerator_generateQR lib now' s = Thrown m"
    using payment_thrown_whatever_the_clock by blast
  from a b c d e show ?thesis by (intro conjI)
qed

theorem event_encode_reads_clock_witness:
  "generateICalString utcHost 1700000000000 1700000000000 launchParty
     = Returned (icalHead ''20231114T221320Z'' ''1700000000000''
                 @ ''SUMMARY:Launch'' @ [BSL] @ '', party'' @ [LF]
                 @ ''DTSTART;VALUE=DATE:20250601'' @ [LF] @ ''DTEND;VALUE=DATE:20250602'' @ [LF]
                 @ ''LOCATION:Room 1'' @ [BSL] @ '';2'' @ [LF]
                 @ ''ORGANIZER;CN='' @ [DQ] @ ''Jane Doe'' @ [DQ] @ '':MAILTO:jane@example.com'' @ [LF]
                 @ icalTail ''20231114T221320Z'')
   \<and> generateICalString utcHost 1700000000000 1700000000001 launchParty
     \<noteq> Returned (icalHead ''20231114T221320Z'' ''1700000000000''
                 @ ''SUMMARY:Launch'' @ [BSL] @ '', party'' @ [LF]
                 @ ''DTSTART;VALUE=DATE:20250601'' @ [LF] @ ''DTEND;VALUE=DATE:20250602'' @ [LF]
                 @ ''LOCATION:Room 1'' @ [BSL] @ '';2'' @ [LF]
                 @ ''ORGANIZER;CN='' @ [DQ] @ ''Jane Doe'' @ [DQ] @ '':MAILTO:jane@example.com'' @ [LF]
                 @ icalTail ''20231114T221320Z'')
   \<and> PaymentQRGenerator_generateQR Returned 1700000000001 ''bitcoin:''
     = Returned \<lparr>dataURL = ''bitcoin:'', paymentString = ''bitcoin:'', timestamp = 1700000000001\<rparr>"
proof -
  note T = event_encode_reads_clock
  have a: "generateICalString utcHost 1700000000000 1700000000000 launchParty
     = Returned (icalHead ''20231114T221320Z'' ''1700000000000''
                 @ ''SUMMARY:Launch'' @ [BSL] @ '', party'' @ [LF]
                 @ ''DTSTART;VALUE=DATE:20250601'' @ [LF] @ ''DTEND;VALUE=DATE:20250602'' @ [LF]
                 @ ''LOCATION:Room 1'' @ [BSL] @ '';2'' @ [LF]
                 @ ''ORGANIZER;CN='' @ [DQ] @ ''Jane Doe'' @ [DQ] @ '':MAILTO:jane@example.com'' @ [LF]
                 @ icalTail ''20231114T221320Z'')"
    unfolding T[THEN conjunct1, rule_format] launchParty_lines sample_stamps sample_uids
    by simp
  have n: "(1700000000000::int) \<noteq> 1700000000001" by simp
  from T[THEN conjunct2, THEN conjunct1, rule_format, of utcHost 1700000000000 1700000000000
      launchParty _ 1700000000001 1700000000000] a n
  have b: "generateICalString utcHost 1700000000000 1700000000001 launchParty
     \<noteq> Returned (icalHead ''20231114T221320Z'' ''1700000000000''
                 @ ''SUMMARY:Launch'' @ [BSL] @ '', party'' @ [LF]
                 @ ''DTSTART;VALUE=DATE:20250601'' @ [LF] @ ''DTEND;VALUE=DATE:20250602'' @ [LF]
                 @ ''LOCATION:Room 1'' @ [BSL] @ '';2'' @ [LF]
                 @ ''ORGANIZER;CN='' @ [DQ] @ ''Jane Doe'' @ [DQ] @ '':MAILTO:jane@example.com'' @ [LF]
                 @ icalTail ''20231114T221320Z'')"
    by blast
  have p: "PaymentQRGenerator_generateQR Returned 1700000000000 ''bitcoin:''
     = Returned \<lparr>dataURL = ''bitcoin:'', paymentString = ''bitcoin:'', timestamp = 1700000000000\<rparr>"
    by (simp add: PaymentQRGenerator_generateQR_def)
  from T[THEN conjunct2, THEN conjunct2, THEN conjunct2, THEN conjunct1, rule_format,
      OF p, of 1700000000001]
  have c: "PaymentQRGenerator_generateQR Returned 1700000000001 ''bitcoin:''
     = Returned \<lparr>dataURL = ''bitcoin:'', paymentString = ''bitcoin:'', timestamp = 1700000000001\<rparr>"
    by simp
  from a b c show ?thesis by (intro conjI)
qed

text \<open>
  The claim as it was written makes every encode call a function of its input alone. The
  same event encoded one second later gives another string.
\<close>

theorem event_encode_differs_with_clock:
  "generateICalString utcHost 1700000000000 1700000000000 launchParty
     \<noteq> generateICalString utcHost 1700000001000 1700000001000 launchParty
   \<and> generateICalString utcHost 1700000000000 1700000000000 launchParty
     = Returned (icalHead ''20231114T221320Z'' ''1700000000000''
                 @ ''SUMMARY:Launch'' @ [BSL] @ '', party'' @ [LF]
                 @ ''DTSTART;VALUE=DATE:20250601'' @ [LF] @ ''DTEND;VALUE=DATE:20250602'' @ [LF]
                 @ ''LOCATION:Room 1'' @ [BSL] @ '';2'' @ [LF]
                 @ ''ORGANIZER;CN='' @ [DQ] @ ''Jane Doe'' @ [DQ] @ '':MAILTO:jane@example.com'' @ [LF]
                 @ icalTail ''20231114T221320Z'')
   \<and> generateICalString utcHost 1700000001000 1700000001000 launchParty
     = Returned (icalHead ''20231114T221321Z'' ''1700000001000''
                 @ ''SUMMARY:Launch'' @ [BSL] @ '', party'' @ [LF]
                 @ ''DTSTART;VALUE=DATE:20250601'' @ [LF] @ ''DTEND;VALUE=DATE:20250602'' @ [LF]
                 @ ''LOCATION:Room 1'' @ [BSL] @ '';2'' @ [LF]
                 @ ''ORGANIZER;CN='' @ [DQ] @ ''Jane Doe'' @ [DQ] @ '':MAILTO:jane@example.com'' @ [LF]
                 @ icalTail ''20231114T221321Z'')"
proof -
  have a: "generateICalString utcHost 1700000000000 1700000000000 launchParty
     = Returned (icalHead ''20231114T221320Z'' ''1700000000000''
                 @ ''SUMMARY:Launch'' @ [BSL] @ '', party'' @ [LF]
                 @ ''DTSTART;VALUE=DATE:20250601'' @ [LF] @ ''DTEND;VALUE=DATE:20250602'' @ [LF]
                 @ ''LOCATION:Room 1'' @ [BSL] @ '';2'' @ [LF]
                 @ ''ORGANIZER;CN='' @ [DQ] @ ''Jane Doe'' @ [DQ] @ '':MAILTO:jane@example.com'' @ [LF]
                 @ icalTail ''20231114T221320Z'')"
    unfolding generateICalString_parts launchParty_lines sample_stamps sample_uids
    by simp
  have b: "generateICalString utcHost 1700000001000 1700000001000 launchParty
     = Returned (icalHead ''20231114T221321Z'' ''1700000001000''
                 @ ''SUMMARY:Launch'' @ [BSL] @ '', party'' @ [LF]
                 @ ''DTSTART;VALUE=DATE:20250601'' @ [LF] @ ''DTEND;VALUE=DATE:20250602'' @ [LF]
                 @ ''LOCATION:Room 1'' @ [BSL] @ '';2'' @ [LF]
                 @ ''ORGANIZER;CN='' @ [DQ] @ ''Jane Doe'' @ [DQ] @ '':MAILTO:jane@example.com'' @ [LF]
                 @ icalTail ''20231114T221321Z'')"
    unfolding generateICalString_parts launchParty_lines sample_stamps sample_uids
    by simp
  have n: "(1700000000000::int) \<noteq> 1700000001000" by simp
  from different_now_different_output[OF a n, of 1700000001000]
  have "generateICalString utcHost 1700000000000 1700000000000 launchParty
     \<noteq> generateICalString utcHost 1700000001000 1700000001000 launchParty"
    unfolding a by simp
  with a b show ?thesis by blast
qed

section \<open>Proofs: payments\<close>

lemma printedIban_fields:
  "paymentType printedIban = ''iban''"
  "ibanCode printedIban = ''DE89 3704 0044 0532 0130 00''"
  "ibanName printedIban = ''Jane Doe''"
  "ibanAmount printedIban = []"
  by (simp_all add: printedIban_def)

lemma printedIban_valid: "validatePaymentData protocolOf printedIban = Returned []"
proof -
  have r: "requiredFields ''iban'' = Some [''paymentType'', ''ibanCode'', ''ibanName'']"
    by (simp add: requiredFields_def)
  have f: "concat (map (\<lambda>field. if fieldValue printedIban field = []
                                     \<or> trim (fieldValue printedIban field) = []
                                  then [getFieldErrorMessage field] else [])
             [''paymentType'', ''ibanCode'', ''ibanName'']) = []"
    by code_simp
  have v: "validateIBANData printedIban = []"
    by code_simp
  show ?thesis
    unfolding validatePaymentData_def printedIban_fields(1) r option.case f v
    by simp
qed

lemma printedIban_encoded:
  "generatePaymentString printedIban
     = Returned ''iban:DE89 3704 0044 0532 0130 00?beneficiary=Jane%20Doe''"
  by code_simp

lemma printedIban_not_matched:
  "searchFrom matchIbanUri ''iban:DE89 3704 0044 0532 0130 00?beneficiary=Jane%20Doe'' = None"
  "getPaymentTypeFromString ''iban:DE89 3704 0044 0532 0130 00?beneficiary=Jane%20Doe'' = ''iban''"
  by code_simp+

lemma compactIban_matched:
  "searchFrom matchIbanUri ''iban:DE89370400440532013000?beneficiary=Jane%20Doe''
     = Some (''DE89370400440532013000'', Some ''beneficiary=Jane%20Doe'')"
  "getPaymentTypeFromString ''iban:DE89370400440532013000?beneficiary=Jane%20Doe'' = ''iban''"
  by code_simp+

text \<open>
  Claim C4 at an input that breaks it. The IBAN, written in groups of four as it is printed
  on a bank statement, passes \<open>validatePaymentData\<close>, which removes the spaces before it
  checks format and checksum. \<open>generateIBANString\<close> writes the field as typed, spaces
  included; \<open>extractPaymentInfo\<close> then finds no IBAN in the generated string and returns the
  raw string only, and the generator's own \<open>validateIBANString\<close> rejects the string. With
  the same IBAN typed without spaces the decoder returns the code and hands the query to
  \<open>URLSearchParams\<close>.
\<close>

theorem iban_typed_with_spaces_is_not_decoded:
  "(\<forall>protocolOf. validatePaymentData protocolOf printedIban = Returned [])
   \<and> ibanCode printedIban = ''DE89 3704 0044 0532 0130 00''
   \<and> generatePaymentString printedIban
       = Returned ''iban:DE89 3704 0044 0532 0130 00?beneficiary=Jane%20Doe''
   \<and> (\<forall>param. extractPaymentInfo param ''iban:DE89 3704 0044 0532 0130 00?beneficiary=Jane%20Doe''
          = RawInfo ''iban'' ''iban:DE89 3704 0044 0532 0130 00?beneficiary=Jane%20Doe'')
   \<and> validateIBANString ''iban:DE89 3704 0044 0532 0130 00?beneficiary=Jane%20Doe''
       = Fail ''Invalid IBAN string format''
   \<and> (\<forall>param. extractPaymentInfo param ''iban:DE89370400440532013000?beneficiary=Jane%20Doe''
          = IBANInfo ''DE89370400440532013000''
              (param ''beneficiary=Jane%20Doe'' ''beneficiary'')
              (param ''beneficiary=Jane%20Doe'' ''amount'')
              (param ''beneficiary=Jane%20Doe'' ''currency'')
              (param ''beneficiary=Jane%20Doe'' ''reference'')
              ''iban:DE89370400440532013000?beneficiary=Jane%20Doe'')"
proof -
  have a: "\<forall>param. extractPaymentInfo param ''iban:DE89 3704 0044 0532 0130 00?beneficiary=Jane%20Doe''
          = RawInfo ''iban'' ''iban:DE89 3704 0044 0532 0130 00?beneficiary=Jane%20Doe''"
    unfolding extractPaymentInfo_def extractIBANInfo_def printedIban_not_matched Let_def
    by simp
  have b: "validateIBANString ''iban:DE89 3704 0044 0532 0130 00?beneficiary=Jane%20Doe''
       = Fail ''Invalid IBAN string format''"
    by code_simp
  have c: "\<forall>param. extractPaymentInfo param ''iban:DE89370400440532013000?beneficiary=Jane%20Doe''
          = IBANInfo ''DE89370400440532013000''
              (param ''beneficiary=Jane%20Doe'' ''beneficiary'')
              (param ''beneficiary=Jane%20Doe'' ''amount'')
              (param ''beneficiary=Jane%20Doe'' ''currency'')
              (param ''beneficiary=Jane%20Doe'' ''reference'')
              ''iban:DE89370400440532013000?beneficiary=Jane%20Doe''"
    unfolding extractPaymentInfo_def extractIBANInfo_def compactIban_matched Let_def
    by (simp add: queryText_def)
  from printedIban_valid printedIban_fields(2) printedIban_encoded a b c show ?thesis
    by blast
qed

end
